theory Spec2Isabelle
  imports Main "HOL-Library.Sublist"
begin

section \<open>fortunebot: a shallow embedding of cmd/fortunebot/main.go\<close>

text \<open>
  The program is one Go file. Its functions are embedded as HOL functions over an
  explicit \<open>world\<close>: the environment variables, the three files whose paths are fixed at
  start-up (config, cache, log), the wall clock, the network, the processes started
  and the two output streams. Every operating-system or library call that can fail in
  the source has its failing branch in the model; which calls fail is an input
  (\<open>faults\<close>).

  Go strings are byte strings; so is \<open>string\<close> here (\<open>char\<close> is a byte). Go's \<open>int\<close>,
  \<open>int64\<close> and \<open>time.Duration\<close> are 64-bit two's complement; they are \<open>int\<close> here with
  the wrap-around (\<open>wrap64\<close>) and the saturation (\<open>satDuration\<close>) written where the
  source computes with them. The one computation in \<open>float64\<close>, the seconds of an age,
  is carried out with its roundings (\<open>float64\<close>).
\<close>

subsection \<open>Strings: the library functions the source calls\<close>

definition nl :: char where
  "nl = CHR 0x0A"

definition tab :: char where
  "tab = CHR 0x09"

text \<open>\<open>strings.TrimSpace\<close> removes leading and trailing white space as Unicode defines
  it: the six ASCII characters, and the runes U+0085, U+00A0, U+1680, U+2000..U+200A,
  U+2028, U+2029, U+202F, U+205F, U+3000, read here in their UTF-8 encoding. A byte that
  does not start a well-formed rune is not white space.\<close>

definition asciiSpace :: "char \<Rightarrow> bool" where
  "asciiSpace c = (c \<in> set [CHR 0x09, CHR 0x0A, CHR 0x0B, CHR 0x0C, CHR 0x0D, CHR 0x20])"

definition space2 :: "char \<Rightarrow> char \<Rightarrow> bool" where
  "space2 a b = (a = CHR 0xC2 \<and> (b = CHR 0x85 \<or> b = CHR 0xA0))"

definition space3 :: "char \<Rightarrow> char \<Rightarrow> char \<Rightarrow> bool" where
  "space3 a b c =
     ((a = CHR 0xE1 \<and> b = CHR 0x9A \<and> c = CHR 0x80) \<or>
      (a = CHR 0xE2 \<and> b = CHR 0x80 \<and>
         ((0x80 \<le> (of_char c :: nat) \<and> (of_char c :: nat) \<le> 0x8A) \<or>
          c = CHR 0xA8 \<or> c = CHR 0xA9 \<or> c = CHR 0xAF)) \<or>
      (a = CHR 0xE2 \<and> b = CHR 0x81 \<and> c = CHR 0x9F) \<or>
      (a = CHR 0xE3 \<and> b = CHR 0x80 \<and> c = CHR 0x80))"

fun trimLeft :: "string \<Rightarrow> string" where
  "trimLeft [] = []"
| "trimLeft (a # s) =
     (if asciiSpace a then trimLeft s
      else (case s of
              [] \<Rightarrow> a # s
            | b # s' \<Rightarrow>
                if space2 a b then trimLeft s'
                else (case s' of
                        [] \<Rightarrow> a # s
                      | c # s'' \<Rightarrow> if space3 a b c then trimLeft s'' else a # s)))"

text \<open>The same scan from the end, on the reversed string: \<open>a\<close> is the last byte.\<close>

fun trimRightRev :: "string \<Rightarrow> string" where
  "trimRightRev [] = []"
| "trimRightRev (a # s) =
     (if asciiSpace a then trimRightRev s
      else (case s of
              [] \<Rightarrow> a # s
            | b # s' \<Rightarrow>
                if space2 b a then trimRightRev s'
                else (case s' of
                        [] \<Rightarrow> a # s
                      | c # s'' \<Rightarrow> if space3 c b a then trimRightRev s'' else a # s)))"

definition TrimSpace :: "string \<Rightarrow> string" where
  "TrimSpace s = rev (trimRightRev (rev (trimLeft s)))"

definition HasPrefix :: "string \<Rightarrow> string \<Rightarrow> bool" where
  "HasPrefix s p = prefix p s"

text \<open>\<open>strings.Split(s, sep)\<close> for a one-byte separator: the pieces between the
  separators, so one piece more than there are separators (\<open>[""]\<close> for the empty
  string).\<close>

fun Split :: "string \<Rightarrow> char \<Rightarrow> string list" where
  "Split [] sep = [[]]"
| "Split (x # xs) sep =
     (if x = sep then [] # Split xs sep
      else (case Split xs sep of
              [] \<Rightarrow> [[x]]
            | y # ys \<Rightarrow> (x # y) # ys))"

text \<open>\<open>strings.SplitN(s, sep, 2)\<close>: the text before the first separator and the rest
  after it, or \<open>s\<close> alone when it has no separator.\<close>

definition SplitN2 :: "string \<Rightarrow> char \<Rightarrow> string list" where
  "SplitN2 s sep =
     (if sep \<in> set s
      then [takeWhile (\<lambda>c. c \<noteq> sep) s, tl (dropWhile (\<lambda>c. c \<noteq> sep) s)]
      else [s])"

text \<open>The verb \<open>%d\<close> of \<open>fmt\<close>: decimal digits, with a minus sign for a negative
  number.\<close>

definition digit :: "nat \<Rightarrow> char" where
  "digit d = ''0123456789'' ! d"

fun showNat :: "nat \<Rightarrow> string" where
  "showNat n = (if n < 10 then [digit n] else showNat (n div 10) @ [digit (n mod 10)])"

declare showNat.simps [simp del]

definition showInt :: "int \<Rightarrow> string" where
  "showInt i = (if i < 0 then CHR ''-'' # showNat (nat (- i)) else showNat (nat i))"

definition showBool :: "bool \<Rightarrow> string" where
  "showBool b = (if b then ''true'' else ''false'')"

text \<open>A string that goes through \<open>json.Marshal\<close> comes back from \<open>json.Unmarshal\<close>
  coerced to well-formed UTF-8: every byte that does not start a well-formed sequence
  is replaced by the rune U+FFFD. \<open>runeLen s\<close> is the length of the well-formed
  sequence at the head of \<open>s\<close>, 0 when there is none.\<close>

definition inRange :: "char \<Rightarrow> nat \<Rightarrow> nat \<Rightarrow> bool" where
  "inRange c lo hi = (lo \<le> of_char c \<and> of_char c \<le> hi)"

definition runeLen :: "string \<Rightarrow> nat" where
  "runeLen s =
     (case s of
        [] \<Rightarrow> 0
      | a # r \<Rightarrow>
          (let x = (of_char a :: nat)
           in if x < 0x80 then 1
              else if 0xC2 \<le> x \<and> x \<le> 0xDF
                then (case r of
                        b # _ \<Rightarrow> if inRange b 0x80 0xBF then 2 else 0
                      | _ \<Rightarrow> 0)
              else if 0xE0 \<le> x \<and> x \<le> 0xEF
                then (case r of
                        b # c # _ \<Rightarrow>
                          if inRange b (if x = 0xE0 then 0xA0 else 0x80)
                                       (if x = 0xED then 0x9F else 0xBF)
                             \<and> inRange c 0x80 0xBF
                          then 3 else 0
                      | _ \<Rightarrow> 0)
              else if 0xF0 \<le> x \<and> x \<le> 0xF4
                then (case r of
                        b # c # d # _ \<Rightarrow>
                          if inRange b (if x = 0xF0 then 0x90 else 0x80)
                                       (if x = 0xF4 then 0x8F else 0xBF)
                             \<and> inRange c 0x80 0xBF \<and> inRange d 0x80 0xBF
                          then 4 else 0
                      | _ \<Rightarrow> 0)
              else 0))"

definition replacementRune :: string where
  "replacementRune = [CHR 0xEF, CHR 0xBF, CHR 0xBD]"

text \<open>\<open>coerceFrom k s\<close> copies the \<open>k\<close> bytes that complete the rune being copied, then
  goes on rune by rune.\<close>

fun coerceFrom :: "nat \<Rightarrow> string \<Rightarrow> string" where
  "coerceFrom k [] = []"
| "coerceFrom (Suc k) (a # s) = a # coerceFrom k s"
| "coerceFrom 0 (a # s) =
     (case runeLen (a # s) of
        0 \<Rightarrow> replacementRune @ coerceFrom 0 s
      | Suc n \<Rightarrow> a # coerceFrom n s)"

definition jsonString :: "string \<Rightarrow> string" where
  "jsonString s = coerceFrom 0 s"

subsection \<open>64-bit arithmetic\<close>

definition minInt64 :: int where
  "minInt64 = - (2 ^ 63)"

definition maxInt64 :: int where
  "maxInt64 = 2 ^ 63 - 1"

text \<open>What an \<open>int64\<close> holds after an arithmetic operation whose exact result is \<open>x\<close>.\<close>

definition wrap64 :: "int \<Rightarrow> int" where
  "wrap64 x = (x + 2 ^ 63) mod 2 ^ 64 - 2 ^ 63"

text \<open>\<open>Time.Sub\<close> returns the difference as a \<open>Duration\<close>, which is the maximum (or
  minimum) duration when the difference does not fit.\<close>

definition satDuration :: "int \<Rightarrow> int" where
  "satDuration d = max minInt64 (min maxInt64 d)"

text \<open>Go's conversion of a float to an integer and its integer division truncate
  towards zero.\<close>

definition quotTrunc :: "int \<Rightarrow> int \<Rightarrow> int" where
  "quotTrunc a b = sgn a * sgn b * (\<bar>a\<bar> div \<bar>b\<bar>)"

definition inInt64 :: "int \<Rightarrow> bool" where
  "inInt64 x = (minInt64 \<le> x \<and> x \<le> maxInt64)"

text \<open>A \<open>float64\<close> other than zero is \<open>m * 2 ^ u\<close> with a 53-bit \<open>m\<close>, written here as
  the pair \<open>(m, u)\<close>. An arithmetic operation gives the \<open>float64\<close> nearest to its exact
  result, the one with the even \<open>m\<close> when two are equally near. \<open>float64 a b\<close> is that
  \<open>float64\<close> for the exact result \<open>a / b\<close>, \<open>0 < b\<close>; the results met here are far from
  the ranges where a \<open>float64\<close> overflows or loses bits of \<open>m\<close>.\<close>

function bitLen :: "int \<Rightarrow> nat" where
  "bitLen n = (if n \<le> 0 then 0 else Suc (bitLen (n div 2)))"
  by pat_completeness auto

termination bitLen
  by (relation "measure nat") auto

declare bitLen.simps [simp del]

definition roundHalfEven :: "int \<Rightarrow> int \<Rightarrow> int" where
  "roundHalfEven a b =
     (let q = a div b; r = a mod b
      in if 2 * r < b then q
         else if b < 2 * r then q + 1
         else if even q then q else q + 1)"

definition float64 :: "int \<Rightarrow> int \<Rightarrow> int \<times> int" where
  "float64 a b =
     (if a = 0 then (0, 0)
      else
        (let n = \<bar>a\<bar>;
             e0 = int (bitLen n) - int (bitLen b);
             e = (if b * 2 ^ nat e0 \<le> n * 2 ^ nat (- e0) then e0 else e0 - 1);
             u = e - 52;
             m = roundHalfEven (n * 2 ^ nat (- u)) (b * 2 ^ nat u)
         in (sgn a * m, u)))"

text \<open>The conversion \<open>int(f)\<close> of a \<open>float64\<close> drops the fraction.\<close>

definition truncFloat64 :: "int \<times> int \<Rightarrow> int" where
  "truncFloat64 f = (case f of (m, u) \<Rightarrow> quotTrunc (m * 2 ^ nat u) (2 ^ nat (- u)))"

text \<open>\<open>Duration.Seconds\<close> of the library: with \<open>sec := d / Second\<close> and
  \<open>nsec := d % Second\<close> it returns \<open>float64(sec) + float64(nsec)/1e9\<close>. The two
  conversions are exact (both numbers are below \<open>2 ^ 53\<close>); the division and the sum
  each round.\<close>

definition durationSeconds :: "int \<Rightarrow> int \<times> int" where
  "durationSeconds d =
     (let sec = quotTrunc d 1000000000;
          nsec = d - sec * 1000000000
      in case float64 nsec 1000000000 of
           (m, u) \<Rightarrow> float64 (sec * 2 ^ nat (- u) + m * 2 ^ nat u) (2 ^ nat (- u)))"

subsection \<open>Data\<close>

record config =
  APIKey :: string
  DefaultPrompt :: string
  Model :: string

text \<open>\<open>Timestamp\<close> is a \<open>float64\<close> of seconds in the source. Its only writer stores
  \<open>float64(time.Now().Unix())\<close>, a whole number, and both its readers convert it with
  \<open>int64(c.Timestamp)\<close>; the model keeps that whole number of seconds.\<close>

record fortuneCache =
  Fortune :: string
  Timestamp :: int

text \<open>\<open>encoding/json\<close> is Go's library, not code of this repository. A JSON file is
  modelled by what \<open>json.Unmarshal\<close> makes of its bytes: an error (with its text) or
  the decoded value; \<open>json.Marshal\<close> followed by a write stores the value, its strings
  coerced (\<open>jsonString\<close>).\<close>

datatype 'a stored = NotJSON string | JSON 'a

record api_reply =
  Output :: "string list list"
  OutputText :: string

record http_request =
  reqMethod :: string
  reqURL :: string
  reqAuthorization :: string
  reqContentType :: string
  reqModel :: string
  reqInput :: "(string \<times> string) list"
  reqMaxOutputTokens :: int
  reqTemperatureTenths :: int

datatype http_result =
  DoError string
| Response int string "api_reply stored"

record process =
  procPath :: string
  procArgv :: "string list"
  procDir :: string
  procEnvAdded :: string

text \<open>The calls of the operating system that the source checks for an error.\<close>

datatype fault =
  ReadConfig | ReadCache | MkdirData | WriteCache | RemoveCache
| OpenLog | WriteLog | ReadLog | Executable | StartProcess

record world =
  env :: "string \<Rightarrow> string"
  configFile :: "config stored option"
  cacheFile :: "fortuneCache stored option"
  logFile :: "string option"
  clock :: int
  faults :: "fault set"
  osErrorText :: "fault \<Rightarrow> string"
  exePath :: string
  exeDir :: string
  childPid :: int
  network :: "http_request \<Rightarrow> http_result"
  httpCalls :: "http_request list"
  spawned :: "process list"
  randSource :: nat
  stdout :: string
  stderr :: string

text \<open>
  \<^item> \<open>env w k\<close> is \<open>os.Getenv(k)\<close>, the empty string for a variable that is not set. It is
    the environment after \<open>loadDotEnv()\<close>, the first statement of \<open>main\<close>, has applied
    its file; \<open>loadDotEnv\<close> itself is not part of the model.
  \<^item> a file is \<open>None\<close> when it does not exist;
  \<^item> \<open>clock\<close> is the wall clock in nanoseconds since the Unix epoch: the seconds and
    the nanoseconds within the second that \<open>time.Now()\<close> gets from the system;
  \<^item> a call in \<open>faults w\<close> fails with the error text \<open>osErrorText w\<close> gives; reading a
    file that does not exist fails too;
  \<^item> \<open>network w r\<close> is what \<open>http.DefaultClient.Do\<close> and the reading and decoding of the
    body give for the request \<open>r\<close>; \<open>httpCalls\<close> lists the requests sent;
  \<^item> \<open>spawned\<close> lists the processes started; \<open>childPid\<close> is the pid the next one gets;
  \<^item> \<open>randSource\<close> is the draw of \<open>math/rand\<close> after seeding it with the clock.
\<close>

record flags =
  flagPrompt :: string
  flagAPIKey :: string
  flagModel :: string
  flagCacheTTL :: int
  flagNoCache :: bool
  flagClearCache :: bool
  flagNoPrefetch :: bool
  flagVerbose :: bool
  flagQuiet :: bool
  flagShowLog :: bool
  flagPrefetchWork :: bool
  flagLogRandom :: bool

datatype load_error = ReadFailed string | ParseFailed string | CacheIsError

datatype fetch_error =
  NoKey | Transport string | HTTPStatus int string | BadJSON string | EmptyResponse

subsection \<open>Constants and output\<close>

definition defaultPrompt :: string where
  "defaultPrompt = ''Generate a very short, funny fortune cookie message about AI, programmers, or neural networks. Maximum 2 short sentences.''"

definition defaultModel :: string where
  "defaultModel = ''gpt-4o-mini''"

definition cacheTTLDefault :: int where
  "cacheTTLDefault = 60"

definition configSource :: string where
  "configSource = ''~/.config/fortunebot/config.json''"

text \<open>The bytes of the literal that \<open>generateFortune\<close> puts before the text, as they
  stand in the source file, the final space included.\<close>

definition marker :: string where
  "marker = [CHR 0xC3, CHR 0xB0, CHR 0xC5, CHR 0xB8, CHR 0xC2, CHR 0xA4,
             CHR 0xE2, CHR 0x80, CHR 0x93, CHR 0x20]"

definition printOut :: "string \<Rightarrow> world \<Rightarrow> world" where
  "printOut s w = w\<lparr>stdout := stdout w @ s\<rparr>"

definition printErr :: "string \<Rightarrow> world \<Rightarrow> world" where
  "printErr s w = w\<lparr>stderr := stderr w @ s\<rparr>"

definition println :: "string \<Rightarrow> world \<Rightarrow> world" where
  "println s w = printOut (s @ [nl]) w"

text \<open>A \<open>time.Time\<close> without a monotonic reading holds its seconds since the year 1 in
  an \<open>int64\<close>: the seconds since 1970 plus \<open>unixToInternal\<close>, a sum that wraps.
  \<open>nowSec\<close> is that field of \<open>time.Now()\<close>, \<open>timeUnix sec\<close> that of \<open>time.Unix(sec, 0)\<close>,
  and \<open>unixNow\<close> is \<open>time.Now().Unix()\<close>, which subtracts the constant again.\<close>

definition unixToInternal :: int where
  "unixToInternal = 62135596800"

definition nowSec :: "world \<Rightarrow> int" where
  "nowSec w = wrap64 (clock w div 1000000000 + unixToInternal)"

definition timeUnix :: "int \<Rightarrow> int" where
  "timeUnix sec = wrap64 (sec + unixToInternal)"

definition unixNow :: "world \<Rightarrow> int" where
  "unixNow w = wrap64 (nowSec w - unixToInternal)"

text \<open>\<open>time.Since(time.Unix(sec, 0))\<close> is \<open>time.Now().Sub(time.Unix(sec, 0))\<close>: the
  difference of the two times in nanoseconds where a \<open>Duration\<close> holds it, the largest
  or the smallest \<open>Duration\<close> where it does not.\<close>

definition timeSince :: "world \<Rightarrow> int \<Rightarrow> int" where
  "timeSince w sec =
     satDuration ((nowSec w - timeUnix sec) * 1000000000 + clock w mod 1000000000)"

text \<open>A clock whose seconds \<open>time.Now()\<close> holds without wrapping.\<close>

definition saneClock :: "world \<Rightarrow> bool" where
  "saneClock w =
     (minInt64 \<le> clock w div 1000000000 \<and>
      clock w div 1000000000 + unixToInternal \<le> maxInt64)"

subsection \<open>Config Resolver\<close>

definition builtinConfig :: config where
  "builtinConfig = \<lparr>APIKey = '''', DefaultPrompt = defaultPrompt, Model = defaultModel\<rparr>"

text \<open>\<open>loadConfig\<close> reads the optional JSON config file and fills defaults.\<close>

definition loadConfig :: "world \<Rightarrow> config" where
  "loadConfig w =
     (if ReadConfig \<in> faults w then builtinConfig
      else (case configFile w of
              None \<Rightarrow> builtinConfig
            | Some (NotJSON m) \<Rightarrow> builtinConfig
            | Some (JSON c) \<Rightarrow>
                (let c1 = (if DefaultPrompt c = '''' then c\<lparr>DefaultPrompt := defaultPrompt\<rparr> else c);
                     c2 = (if Model c1 = '''' then c1\<lparr>Model := defaultModel\<rparr> else c1)
                 in c2)))"

definition resolveAPIKeyWithSource :: "string \<Rightarrow> config \<Rightarrow> world \<Rightarrow> string \<times> string" where
  "resolveAPIKeyWithSource cli cfg w =
     (if TrimSpace cli \<noteq> '''' then (cli, ''--api-key flag'')
      else if env w ''FORTUNEBOT_API_KEY'' \<noteq> ''''
        then (env w ''FORTUNEBOT_API_KEY'', ''env FORTUNEBOT_API_KEY'')
      else if env w ''OPENAI_API_KEY'' \<noteq> ''''
        then (env w ''OPENAI_API_KEY'', ''env OPENAI_API_KEY'')
      else if TrimSpace (APIKey cfg) \<noteq> '''' then (APIKey cfg, configSource)
      else ('''', ''none found''))"

definition resolveModelWithSource :: "string \<Rightarrow> config \<Rightarrow> world \<Rightarrow> string \<times> string" where
  "resolveModelWithSource cli cfg w =
     (if TrimSpace cli \<noteq> '''' then (cli, ''--model flag'')
      else if env w ''FORTUNEBOT_MODEL'' \<noteq> ''''
        then (env w ''FORTUNEBOT_MODEL'', ''env FORTUNEBOT_MODEL'')
      else if env w ''OPENAI_MODEL'' \<noteq> ''''
        then (env w ''OPENAI_MODEL'', ''env OPENAI_MODEL'')
      else if TrimSpace (Model cfg) \<noteq> '''' then (Model cfg, configSource)
      else (defaultModel, ''built-in default''))"

definition resolvePromptWithSource :: "string \<Rightarrow> config \<Rightarrow> world \<Rightarrow> string \<times> string" where
  "resolvePromptWithSource cli cfg w =
     (if TrimSpace cli \<noteq> '''' then (cli, ''--prompt flag'')
      else if env w ''FORTUNEBOT_PROMPT'' \<noteq> ''''
        then (env w ''FORTUNEBOT_PROMPT'', ''env FORTUNEBOT_PROMPT'')
      else if TrimSpace (DefaultPrompt cfg) \<noteq> '''' then (DefaultPrompt cfg, configSource)
      else (defaultPrompt, ''built-in default''))"

subsection \<open>Cache Store\<close>

text \<open>\<open>isErrorFortune\<close> detects cached error strings.\<close>

definition isErrorFortune :: "string \<Rightarrow> bool" where
  "isErrorFortune s = HasPrefix (TrimSpace s) ''[fortunebot]''"

definition loadCache :: "world \<Rightarrow> load_error + fortuneCache" where
  "loadCache w =
     (if ReadCache \<in> faults w then Inl (ReadFailed (osErrorText w ReadCache))
      else (case cacheFile w of
              None \<Rightarrow> Inl (ReadFailed (osErrorText w ReadCache))
            | Some (NotJSON m) \<Rightarrow> Inl (ParseFailed m)
            | Some (JSON c) \<Rightarrow>
                if isErrorFortune (Fortune c) then Inl CacheIsError else Inr c))"

text \<open>\<open>saveCache\<close> writes the fortune to disk unless it is an error message. A write
  that fails is taken to leave the file as it was.\<close>

definition saveCache :: "string \<Rightarrow> world \<Rightarrow> world" where
  "saveCache f w =
     (if isErrorFortune f then w
      else if MkdirData \<in> faults w
        then printErr (''[fortunebot] Failed to create data dir: '' @ osErrorText w MkdirData @ [nl]) w
      else if WriteCache \<in> faults w
        then printErr (''[fortunebot] Failed to write cache: '' @ osErrorText w WriteCache @ [nl]) w
      else w\<lparr>cacheFile := Some (JSON \<lparr>Fortune = jsonString f, Timestamp = unixNow w\<rparr>)\<rparr>)"

text \<open>\<open>cacheIsFresh\<close> reports whether the cache is younger than the TTL:
  \<open>age < time.Duration(ttl)*time.Second\<close>, a product of two \<open>int64\<close>.\<close>

definition cacheIsFresh :: "fortuneCache \<Rightarrow> int \<Rightarrow> world \<Rightarrow> bool" where
  "cacheIsFresh c ttl w =
     (let age = timeSince w (Timestamp c)
      in age < wrap64 (ttl * 1000000000))"

definition clearCache :: "world \<Rightarrow> world" where
  "clearCache w =
     (if RemoveCache \<in> faults w
        then printErr (''[fortunebot] Failed to clear cache: '' @ osErrorText w RemoveCache @ [nl]) w
      else if cacheFile w = None then println ''[fortunebot] No cache to clear.'' w
      else println ''[fortunebot] Cache cleared.'' (w\<lparr>cacheFile := None\<rparr>))"

subsection \<open>Log Store\<close>

text \<open>\<open>logFortune\<close> appends a fortune to the log file (skipping error messages).
  Opening with \<open>O_CREATE\<close> makes the file; a write that fails is taken to add
  nothing.\<close>

definition logFortune :: "string \<Rightarrow> world \<Rightarrow> world" where
  "logFortune f w =
     (if isErrorFortune f then w
      else (let line = showInt (unixNow w) @ [tab] @ f @ [nl]
            in if OpenLog \<in> faults w
                 then printErr (''[fortunebot] Failed to write log: '' @ osErrorText w OpenLog @ [nl]) w
               else (let old = (case logFile w of None \<Rightarrow> [] | Some b \<Rightarrow> b)
                     in if WriteLog \<in> faults w
                          then printErr (''[fortunebot] Failed to write log: '' @ osErrorText w WriteLog @ [nl])
                                 (w\<lparr>logFile := Some old\<rparr>)
                        else w\<lparr>logFile := Some (old @ line)\<rparr>)))"

definition readLog :: "world \<Rightarrow> string + string" where
  "readLog w =
     (if ReadLog \<in> faults w then Inl (osErrorText w ReadLog)
      else (case logFile w of None \<Rightarrow> Inl (osErrorText w ReadLog) | Some b \<Rightarrow> Inr b))"

definition printLog :: "world \<Rightarrow> world" where
  "printLog w =
     (case readLog w of
        Inl e \<Rightarrow> println ''[fortunebot] No log file found.'' w
      | Inr b \<Rightarrow> printOut b w)"

text \<open>The loop of \<open>randomFortuneFromLog\<close> over the lines of the log.\<close>

fun collectFortunes :: "string list \<Rightarrow> string list" where
  "collectFortunes [] = []"
| "collectFortunes (line # rest) =
     (let parts = SplitN2 line tab
      in if length parts = 2 then TrimSpace (parts ! 1) # collectFortunes rest
         else collectFortunes rest)"

text \<open>\<open>rand.Intn(n)\<close> for \<open>n > 0\<close>: a number below \<open>n\<close>.\<close>

definition randIntn :: "world \<Rightarrow> nat \<Rightarrow> nat" where
  "randIntn w n = randSource w mod n"

definition randomFortuneFromLog :: "world \<Rightarrow> string + string" where
  "randomFortuneFromLog w =
     (case readLog w of
        Inl e \<Rightarrow> Inl (''failed to read log: '' @ e)
      | Inr b \<Rightarrow>
          (let fortunes = collectFortunes (Split b nl)
           in if length fortunes = 0 then Inl ''no fortunes found in log''
              else Inr (fortunes ! randIntn w (length fortunes))))"

subsection \<open>Generation Client\<close>

definition errorText :: "fetch_error \<Rightarrow> string" where
  "errorText e =
     (case e of
        NoKey \<Rightarrow> ''no API key provided''
      | Transport m \<Rightarrow> m
      | HTTPStatus code body \<Rightarrow> ''API error ('' @ showInt code @ ''): '' @ body
      | BadJSON m \<Rightarrow> m
      | EmptyResponse \<Rightarrow> ''empty response from API'')"

definition buildRequest :: "string \<Rightarrow> string \<Rightarrow> string \<Rightarrow> http_request" where
  "buildRequest prompt apiKey model =
     \<lparr>reqMethod = ''POST'',
      reqURL = ''https://api.openai.com/v1/responses'',
      reqAuthorization = ''Bearer '' @ apiKey,
      reqContentType = ''application/json'',
      reqModel = jsonString model,
      reqInput = [(''system'', ''You are a fortune cookie generator.''),
                  (''user'', jsonString prompt)],
      reqMaxOutputTokens = 60,
      reqTemperatureTenths = 9\<rparr>"

definition extractFortune :: "api_reply \<Rightarrow> string" where
  "extractFortune parsed =
     (if length (Output parsed) > 0 \<and> length (hd (Output parsed)) > 0
        then TrimSpace (hd (hd (Output parsed)))
      else if OutputText parsed \<noteq> '''' then TrimSpace (OutputText parsed)
      else '''')"

text \<open>\<open>generateFortune\<close>: the request is sent unless the key is the empty string.
  (\<open>http.NewRequestWithContext\<close> cannot fail on the constant method and URL.)\<close>

definition generateFortune ::
  "string \<Rightarrow> string \<Rightarrow> string \<Rightarrow> world \<Rightarrow> (fetch_error + string) \<times> world" where
  "generateFortune prompt apiKey model w =
     (if apiKey = '''' then (Inl NoKey, w)
      else (let req = buildRequest prompt apiKey model;
                w1 = w\<lparr>httpCalls := httpCalls w @ [req]\<rparr>
            in case network w req of
                 DoError m \<Rightarrow> (Inl (Transport m), w1)
               | Response code body decoded \<Rightarrow>
                   if code \<ge> 300 then (Inl (HTTPStatus code body), w1)
                   else (case decoded of
                           NotJSON m \<Rightarrow> (Inl (BadJSON m), w1)
                         | JSON parsed \<Rightarrow>
                             (let fortune = extractFortune parsed
                              in if fortune = '''' then (Inl EmptyResponse, w1)
                                 else (Inr (marker @ fortune), w1)))))"

subsection \<open>Prefetch Orchestrator\<close>

text \<open>\<open>startPrefetch\<close> spawns a detached worker process to refresh cache and log. The
  process gets the environment of its parent and one more variable.\<close>

definition prefetchArgs :: "string \<Rightarrow> string \<Rightarrow> string \<Rightarrow> string list" where
  "prefetchArgs prompt apiKey model =
     [''--prefetch-worker'', ''--prompt'', prompt, ''--model'', model]
       @ (if apiKey \<noteq> '''' then [''--api-key'', apiKey] else [])"

definition startPrefetch :: "string \<Rightarrow> string \<Rightarrow> string \<Rightarrow> bool \<Rightarrow> world \<Rightarrow> world" where
  "startPrefetch prompt apiKey model verbose w =
     (if Executable \<in> faults w
        then (if verbose
                then printErr (''[fortunebot] Cannot start prefetch (no executable path): ''
                                 @ osErrorText w Executable @ [nl]) w
              else w)
      else (let args = prefetchArgs prompt apiKey model;
                cmd = \<lparr>procPath = exePath w,
                       procArgv = exePath w # args,
                       procDir = exeDir w,
                       procEnvAdded = ''FORTUNEBOT_VERBOSE='' @ showBool verbose\<rparr>
            in if StartProcess \<in> faults w
                 then (if verbose
                         then printErr (''[fortunebot] Failed to start prefetch: ''
                                          @ osErrorText w StartProcess @ [nl]) w
                       else w)
               else (let w1 = w\<lparr>spawned := spawned w @ [cmd]\<rparr>
                     in if verbose
                          then printOut (''[fortunebot] Background prefetch started (pid ''
                                           @ showInt (childPid w) @ '').'' @ [nl]) w1
                        else w1)))"

text \<open>\<open>runPrefetchWorker\<close> performs one fetch, log and save for the background
  process, and returns the exit status.\<close>

definition runPrefetchWorker :: "string \<Rightarrow> string \<Rightarrow> string \<Rightarrow> world \<Rightarrow> int \<times> world" where
  "runPrefetchWorker prompt apiKey model w =
     (case generateFortune prompt apiKey model w of
        (Inl err, w1) \<Rightarrow>
          (1, printErr (''[fortunebot] Background prefetch failed: '' @ errorText err @ [nl]) w1)
      | (Inr fortune, w1) \<Rightarrow>
          (let w2 = logFortune fortune w1;
               w3 = saveCache fortune w2
           in (0, if env w3 ''FORTUNEBOT_VERBOSE'' = ''true'' \<or> env w3 ''FORTUNEBOT_VERBOSE'' = ''1''
                    then println ''[fortunebot] Background prefetch complete; cache updated.'' w3
                  else w3)))"

text \<open>\<open>formatAge\<close> prints \<open>int(age.Seconds())\<close> with \<open>%ds\<close>: the age in seconds as a
  \<open>float64\<close>, its fraction dropped.\<close>

definition formatAge :: "int \<Rightarrow> world \<Rightarrow> string" where
  "formatAge ts w = showInt (truncFloat64 (durationSeconds (timeSince w ts))) @ ''s''"

text \<open>\<open>maskKey\<close> partially masks an API key for display.\<close>

definition maskKey :: "string \<Rightarrow> string" where
  "maskKey k =
     (if length k \<le> 8 then k
      else take 4 k @ ''***'' @ drop (length k - 4) k)"

subsection \<open>main\<close>

text \<open>Lines 471 to 479 of \<open>main\<close>: the verbose report of what was resolved.\<close>

definition announce ::
  "string \<Rightarrow> string \<Rightarrow> string \<Rightarrow> string \<Rightarrow> string \<Rightarrow> world \<Rightarrow> world" where
  "announce promptSrc model modelSrc apiKey apiSrc w =
     (let w1 = printOut (''[fortunebot] Using prompt (source: '' @ promptSrc @ '')'' @ [nl]) w;
          w2 = printOut (''[fortunebot] Using model: '' @ model @ '' (source: '' @ modelSrc @ '')'' @ [nl]) w1
      in if apiKey \<noteq> ''''
           then printOut (''[fortunebot] Using API key from: '' @ apiSrc @ '' ('' @ maskKey apiKey @ '')'' @ [nl]) w2
         else printOut (''[fortunebot] No API key found (sources checked: '' @ apiSrc @ '')'' @ [nl]) w2)"

text \<open>Lines 486 to 503: a cache entry was loaded. Both branches print the fortune,
  start the prefetch unless \<open>--no-prefetch\<close> is set, and return.\<close>

definition serveCached ::
  "flags \<Rightarrow> bool \<Rightarrow> string \<Rightarrow> string \<Rightarrow> string \<Rightarrow> fortuneCache \<Rightarrow> world \<Rightarrow> int \<times> world" where
  "serveCached fl verbose prompt apiKey model cache w =
     (let cacheTTL = flagCacheTTL fl
      in if cacheIsFresh cache cacheTTL w
           then (let w1 = (if verbose
                             then printOut (''[fortunebot] Using fresh cache (age ''
                                              @ formatAge (Timestamp cache) w @ '' < TTL ''
                                              @ showInt cacheTTL @ ''s).'' @ [nl]) w
                           else w);
                     w2 = println (Fortune cache) w1;
                     w3 = (if \<not> flagNoPrefetch fl then startPrefetch prompt apiKey model verbose w2 else w2)
                 in (0, w3))
         else (let w1 = (if verbose
                           then printOut (''[fortunebot] Cache stale (age ''
                                            @ formatAge (Timestamp cache) w @ '' >= TTL ''
                                            @ showInt cacheTTL
                                            @ ''s). Serving stale and refreshing now...'' @ [nl]) w
                         else w);
                   w2 = println (Fortune cache) w1;
                   w3 = (if \<not> flagNoPrefetch fl then startPrefetch prompt apiKey model verbose w2 else w2)
               in (0, w3)))"

text \<open>Lines 514 to 527: the synchronous fetch. \<open>os.Exit(1)\<close> on an error; after a
  fetch that succeeded the fortune is logged and printed, and saved with a prefetch
  started only \<open>if caching\<close>.\<close>

definition fetchFresh ::
  "flags \<Rightarrow> bool \<Rightarrow> bool \<Rightarrow> string \<Rightarrow> string \<Rightarrow> string \<Rightarrow> world \<Rightarrow> int \<times> world" where
  "fetchFresh fl verbose caching prompt apiKey model w =
     (case generateFortune prompt apiKey model w of
        (Inl err, w1) \<Rightarrow> (1, printErr (''[fortunebot] Error: '' @ errorText err @ [nl]) w1)
      | (Inr fortune, w1) \<Rightarrow>
          (let w2 = logFortune fortune w1;
               w3 = println fortune w2
           in if caching
                then (let w4 = saveCache fortune w3;
                          w5 = (if \<not> flagNoPrefetch fl
                                  then startPrefetch prompt apiKey model verbose w4 else w4)
                      in (0, w5))
              else (0, w3)))"

text \<open>Lines 481 to 528: with caching on, a cache entry that loads is served;
  otherwise the fortune is fetched.\<close>

definition serve ::
  "flags \<Rightarrow> bool \<Rightarrow> string \<Rightarrow> string \<Rightarrow> string \<Rightarrow> world \<Rightarrow> int \<times> world" where
  "serve fl verbose prompt apiKey model w =
     (let cacheTTL = flagCacheTTL fl;
          caching = (\<not> flagNoCache fl \<and> cacheTTL > 0)
      in if caching
           then (case loadCache w of
                   Inr cache \<Rightarrow> serveCached fl verbose prompt apiKey model cache w
                 | Inl err \<Rightarrow>
                     fetchFresh fl verbose caching prompt apiKey model
                       (if verbose
                          then println ''[fortunebot] No cache found. Fetching fresh fortune...'' w
                        else w))
         else fetchFresh fl verbose caching prompt apiKey model
                (if verbose
                   then println ''[fortunebot] Caching disabled. Fetching fresh fortune...'' w
                 else w))"

text \<open>Lines 463 to 528: normal mode.\<close>

definition normalMode :: "flags \<Rightarrow> config \<Rightarrow> bool \<Rightarrow> world \<Rightarrow> int \<times> world" where
  "normalMode fl cfg verbose w0 =
     (let w1 = (if flagClearCache fl then clearCache w0 else w0);
          (prompt, promptSrc) = resolvePromptWithSource (flagPrompt fl) cfg w1;
          (apiKey, apiSrc) = resolveAPIKeyWithSource (flagAPIKey fl) cfg w1;
          (model, modelSrc) = resolveModelWithSource (flagModel fl) cfg w1;
          w2 = (if verbose then announce promptSrc model modelSrc apiKey apiSrc w1 else w1)
      in serve fl verbose prompt apiKey model w2)"

text \<open>\<open>main\<close>, from \<open>cfg := loadConfig()\<close> on, with the parsed flags as an argument:
  the exit status and the world it leaves. Returning from \<open>main\<close> is exit status 0.\<close>

definition main :: "flags \<Rightarrow> world \<Rightarrow> int \<times> world" where
  "main fl w =
     (let cfg = loadConfig w;
          verbose = (flagVerbose fl \<and> \<not> flagQuiet fl)
      in if flagPrefetchWork fl
           then (let prompt = fst (resolvePromptWithSource (flagPrompt fl) cfg w);
                     apiKey = fst (resolveAPIKeyWithSource (flagAPIKey fl) cfg w);
                     model = fst (resolveModelWithSource (flagModel fl) cfg w)
                 in runPrefetchWorker prompt apiKey model w)
         else if flagShowLog fl then (0, printLog w)
         else if flagLogRandom fl
           then (case randomFortuneFromLog w of
                   Inl err \<Rightarrow> (1, printErr (''[fortunebot] '' @ err @ [nl]) w)
                 | Inr f \<Rightarrow>
                     (let w1 = (if verbose
                                  then println ''[fortunebot] Showing random fortune from log (no API call).'' w
                                else w)
                      in (0, println f w1)))
         else normalMode fl cfg verbose w)"

subsection \<open>Names for what \<open>main\<close> binds\<close>

definition verboseOf :: "flags \<Rightarrow> bool" where
  "verboseOf fl = (flagVerbose fl \<and> \<not> flagQuiet fl)"

definition normalFlags :: "flags \<Rightarrow> bool" where
  "normalFlags fl = (\<not> flagPrefetchWork fl \<and> \<not> flagShowLog fl \<and> \<not> flagLogRandom fl)"

definition cachingOn :: "flags \<Rightarrow> bool" where
  "cachingOn fl = (\<not> flagNoCache fl \<and> flagCacheTTL fl > 0)"

definition promptOf :: "flags \<Rightarrow> world \<Rightarrow> string" where
  "promptOf fl w = fst (resolvePromptWithSource (flagPrompt fl) (loadConfig w) w)"

definition keyOf :: "flags \<Rightarrow> world \<Rightarrow> string" where
  "keyOf fl w = fst (resolveAPIKeyWithSource (flagAPIKey fl) (loadConfig w) w)"

definition modelOf :: "flags \<Rightarrow> world \<Rightarrow> string" where
  "modelOf fl w = fst (resolveModelWithSource (flagModel fl) (loadConfig w) w)"

text \<open>The world in which normal mode reaches line 481: after \<open>--clear-cache\<close> and the
  verbose report.\<close>

definition preamble :: "flags \<Rightarrow> world \<Rightarrow> world" where
  "preamble fl w =
     (let cfg = loadConfig w;
          w1 = (if flagClearCache fl then clearCache w else w)
      in if verboseOf fl
           then announce (snd (resolvePromptWithSource (flagPrompt fl) cfg w))
                  (modelOf fl w) (snd (resolveModelWithSource (flagModel fl) cfg w))
                  (keyOf fl w) (snd (resolveAPIKeyWithSource (flagAPIKey fl) cfg w)) w1
         else w1)"

text \<open>The world in which the synchronous fetch starts: after the verbose line that
  announces it.\<close>

definition beforeFetch :: "flags \<Rightarrow> world \<Rightarrow> world" where
  "beforeFetch fl w =
     (if verboseOf fl
        then println (if cachingOn fl
                        then ''[fortunebot] No cache found. Fetching fresh fortune...''
                      else ''[fortunebot] Caching disabled. Fetching fresh fortune...'')
               (preamble fl w)
      else preamble fl w)"

text \<open>The synchronous fetch of normal mode, line 514.\<close>

definition syncFetch :: "flags \<Rightarrow> world \<Rightarrow> (fetch_error + string) \<times> world" where
  "syncFetch fl w =
     generateFortune (promptOf fl w) (keyOf fl w) (modelOf fl w) (beforeFetch fl w)"

subsection \<open>Concrete worlds\<close>

definition goodReply :: http_result where
  "goodReply = Response 200 ''(the body of the reply)''
                 (JSON \<lparr>Output = [[''Good luck.'']], OutputText = ''''\<rparr>)"

text \<open>No variable set, no file, no fault, half a second past Unix time 1700000000
  (14 November 2023), a network that answers.\<close>

definition world0 :: world where
  "world0 =
     \<lparr>env = (\<lambda>k. ''''),
      configFile = None,
      cacheFile = None,
      logFile = None,
      clock = 1700000000500000000,
      faults = {},
      osErrorText = (\<lambda>f. ''no such file or directory''),
      exePath = ''/usr/local/bin/fortunebot'',
      exeDir = ''/usr/local/bin'',
      childPid = 4242,
      network = (\<lambda>r. goodReply),
      httpCalls = [],
      spawned = [],
      randSource = 7,
      stdout = '''',
      stderr = ''''\<rparr>"

text \<open>The command line with no argument.\<close>

definition flags0 :: flags where
  "flags0 =
     \<lparr>flagPrompt = '''', flagAPIKey = '''', flagModel = '''',
      flagCacheTTL = cacheTTLDefault,
      flagNoCache = False, flagClearCache = False, flagNoPrefetch = False,
      flagVerbose = False, flagQuiet = False, flagShowLog = False,
      flagPrefetchWork = False, flagLogRandom = False\<rparr>"

text \<open>\<open>OPENAI_API_KEY\<close> is set.\<close>

definition worldKey :: world where
  "worldKey = world0\<lparr>env := (\<lambda>k. if k = ''OPENAI_API_KEY'' then ''sk-test'' else '''')\<rparr>"

text \<open>A cache entry written 3600 seconds ago.\<close>

definition staleEntry :: fortuneCache where
  "staleEntry = \<lparr>Fortune = ''Stale wisdom.'', Timestamp = 1699996400\<rparr>"

definition worldStale :: world where
  "worldStale = worldKey\<lparr>cacheFile := Some (JSON staleEntry)\<rparr>"

text \<open>The key is set, an earlier run left a cache entry and a log line, and the
  network is down.\<close>

definition oldLog :: string where
  "oldLog = ''1699996400'' @ [tab] @ ''Stale wisdom.'' @ [nl]"

definition worldDown :: world where
  "worldDown = worldKey\<lparr>network := (\<lambda>r. DoError ''connection refused''),
                         cacheFile := Some (JSON staleEntry),
                         logFile := Some oldLog\<rparr>"

text \<open>A cache file that holds an error message, as a hand-edited file can.\<close>

definition taggedText :: string where
  "taggedText = ''[fortunebot] Error: no API key provided''"

definition taggedEntry :: fortuneCache where
  "taggedEntry = \<lparr>Fortune = taggedText, Timestamp = 1700000000\<rparr>"

definition worldTagged :: world where
  "worldTagged = world0\<lparr>cacheFile := Some (JSON taggedEntry)\<rparr>"

text \<open>A log of four lines: an entry, an empty line, a line with no tab, an entry.\<close>

definition logText :: string where
  "logText = ''1000'' @ [tab] @ ''Hello'' @ [nl] @ [nl] @ ''bad line'' @ [nl]
               @ ''2000'' @ [tab] @ '' World '' @ [nl]"

definition worldLog :: world where
  "worldLog = world0\<lparr>logFile := Some logText\<rparr>"

text \<open>A log with no entry.\<close>

definition worldJunk :: world where
  "worldJunk = world0\<lparr>logFile := Some ''bad line''\<rparr>"

text \<open>The log of the scenario: exactly the entry \<open>1000<tab>Hello\<close>.\<close>

definition worldHello :: world where
  "worldHello = world0\<lparr>logFile := Some (''1000'' @ [tab] @ ''Hello'')\<rparr>"

text \<open>The same world 30 seconds later.\<close>

definition laterWorld :: "world \<Rightarrow> world" where
  "laterWorld w = w\<lparr>clock := clock w + 30000000000\<rparr>"

definition flagsNoCache :: flags where
  "flagsNoCache = flags0\<lparr>flagNoCache := True\<rparr>"

definition flagsWorker :: flags where
  "flagsWorker = flags0\<lparr>flagPrefetchWork := True, flagPrompt := ''Tell a fortune.'',
                         flagModel := ''gpt-4o-mini'', flagAPIKey := ''sk-test''\<rparr>"

definition flagsRandom :: flags where
  "flagsRandom = flags0\<lparr>flagLogRandom := True\<rparr>"

text \<open>The command line \<open>--clear-cache\<close>.\<close>

definition flagsClear :: flags where
  "flagsClear = flags0\<lparr>flagClearCache := True\<rparr>"

text \<open>No key anywhere, but \<open>FORTUNEBOT_API_KEY\<close> is set to one space.\<close>

definition worldSpace :: world where
  "worldSpace = world0\<lparr>env := (\<lambda>k. if k = ''FORTUNEBOT_API_KEY'' then '' '' else '''')\<rparr>"

section \<open>Properties\<close>

subsection \<open>Strings\<close>

lemma TrimSpace_Nil [simp]: "TrimSpace [] = []"
  by (simp add: TrimSpace_def)

lemma coerceFrom_pos: "0 < k \<Longrightarrow> coerceFrom k (a # s) = a # coerceFrom (k - 1) s"
  by (cases k) simp_all

lemmas json_defs = jsonString_def runeLen_def inRange_def coerceFrom_pos

lemma jsonString_good: "jsonString (marker @ ''Good luck.'') = marker @ ''Good luck.''"
  by (simp add: json_defs marker_def)

lemma trimRightRev_suffix: "suffix (trimRightRev r) r"
proof (induction r rule: trimRightRev.induct)
  case 1
  then show ?case by simp
next
  case (2 a s)
  then show ?case
    by (auto simp: suffix_Cons split: list.splits)
qed

lemma trimLeft_marker: "trimLeft (marker @ x) = marker @ x"
  by (simp add: marker_def asciiSpace_def space2_def space3_def)

lemma TrimSpace_marker_prefix: "prefix (TrimSpace (marker @ x)) (marker @ x)"
proof -
  have "suffix (trimRightRev (rev (marker @ x))) (rev (marker @ x))"
    by (rule trimRightRev_suffix)
  then have "prefix (rev (trimRightRev (rev (marker @ x)))) (rev (rev (marker @ x)))"
    unfolding suffix_to_prefix .
  then show ?thesis
    by (simp add: TrimSpace_def trimLeft_marker)
qed

text \<open>What \<open>generateFortune\<close> returns starts with the marker, so it is never taken
  for an error message.\<close>

lemma marker_not_error: "\<not> isErrorFortune (marker @ x)"
proof
  assume "isErrorFortune (marker @ x)"
  then have "prefix ''[fortunebot]'' (TrimSpace (marker @ x))"
    by (simp add: isErrorFortune_def HasPrefix_def)
  then have "prefix ''[fortunebot]'' (marker @ x)"
    using TrimSpace_marker_prefix prefix_order.trans by blast
  then show False
    by (simp add: marker_def)
qed

lemma generateFortune_not_error:
  "fst (generateFortune p k m w) = Inr f \<Longrightarrow> \<not> isErrorFortune f"
  by (auto simp: generateFortune_def Let_def marker_not_error
      split: if_splits http_result.splits stored.splits)

lemma collectFortunes_eq:
  "collectFortunes ls =
     map (\<lambda>l. TrimSpace (tl (dropWhile (\<lambda>c. c \<noteq> tab) l))) (filter (\<lambda>l. tab \<in> set l) ls)"
  by (induction ls) (simp_all add: Let_def SplitN2_def)

lemmas string_defs = TrimSpace_def asciiSpace_def space2_def space3_def isErrorFortune_def
  HasPrefix_def marker_def nl_def tab_def

subsection \<open>What each operation leaves alone\<close>

lemma printOut_fields [simp]:
  "env (printOut s w) = env w" "cacheFile (printOut s w) = cacheFile w"
  "logFile (printOut s w) = logFile w" "faults (printOut s w) = faults w"
  "httpCalls (printOut s w) = httpCalls w" "spawned (printOut s w) = spawned w"
  "clock (printOut s w) = clock w" "osErrorText (printOut s w) = osErrorText w"
  "exePath (printOut s w) = exePath w" "exeDir (printOut s w) = exeDir w"
  "network (printOut s w) = network w"
  "stdout (printOut s w) = stdout w @ s" "stderr (printOut s w) = stderr w"
  by (simp_all add: printOut_def)

lemma printErr_fields [simp]:
  "env (printErr s w) = env w" "cacheFile (printErr s w) = cacheFile w"
  "logFile (printErr s w) = logFile w" "faults (printErr s w) = faults w"
  "httpCalls (printErr s w) = httpCalls w" "spawned (printErr s w) = spawned w"
  "clock (printErr s w) = clock w" "osErrorText (printErr s w) = osErrorText w"
  "exePath (printErr s w) = exePath w" "exeDir (printErr s w) = exeDir w"
  "network (printErr s w) = network w"
  "stdout (printErr s w) = stdout w" "stderr (printErr s w) = stderr w @ s"
  by (simp_all add: printErr_def)

lemma println_fields [simp]:
  "env (println s w) = env w" "cacheFile (println s w) = cacheFile w"
  "logFile (println s w) = logFile w" "faults (println s w) = faults w"
  "httpCalls (println s w) = httpCalls w" "spawned (println s w) = spawned w"
  "clock (println s w) = clock w" "osErrorText (println s w) = osErrorText w"
  "exePath (println s w) = exePath w" "exeDir (println s w) = exeDir w"
  "network (println s w) = network w"
  "stdout (println s w) = stdout w @ s @ [nl]" "stderr (println s w) = stderr w"
  by (simp_all add: println_def)

lemma announce_fields [simp]:
  "env (announce a b c d e w) = env w" "cacheFile (announce a b c d e w) = cacheFile w"
  "logFile (announce a b c d e w) = logFile w" "faults (announce a b c d e w) = faults w"
  "httpCalls (announce a b c d e w) = httpCalls w" "spawned (announce a b c d e w) = spawned w"
  "clock (announce a b c d e w) = clock w" "osErrorText (announce a b c d e w) = osErrorText w"
  "exePath (announce a b c d e w) = exePath w" "exeDir (announce a b c d e w) = exeDir w"
  "network (announce a b c d e w) = network w"
  "stderr (announce a b c d e w) = stderr w"
  by (simp_all add: announce_def Let_def)

lemma clearCache_fields [simp]:
  "env (clearCache w) = env w"
  "logFile (clearCache w) = logFile w" "faults (clearCache w) = faults w"
  "httpCalls (clearCache w) = httpCalls w" "spawned (clearCache w) = spawned w"
  "clock (clearCache w) = clock w" "osErrorText (clearCache w) = osErrorText w"
  "exePath (clearCache w) = exePath w" "exeDir (clearCache w) = exeDir w"
  "network (clearCache w) = network w"
  by (simp_all add: clearCache_def)

lemma preamble_fields [simp]:
  "env (preamble fl w) = env w"
  "cacheFile (preamble fl w) = cacheFile (if flagClearCache fl then clearCache w else w)"
  "logFile (preamble fl w) = logFile w" "faults (preamble fl w) = faults w"
  "httpCalls (preamble fl w) = httpCalls w" "spawned (preamble fl w) = spawned w"
  "clock (preamble fl w) = clock w" "osErrorText (preamble fl w) = osErrorText w"
  "exePath (preamble fl w) = exePath w" "exeDir (preamble fl w) = exeDir w"
  "network (preamble fl w) = network w"
  by (simp_all add: preamble_def Let_def)

lemma beforeFetch_fields [simp]:
  "env (beforeFetch fl w) = env w"
  "cacheFile (beforeFetch fl w) = cacheFile (preamble fl w)"
  "logFile (beforeFetch fl w) = logFile w" "faults (beforeFetch fl w) = faults w"
  "httpCalls (beforeFetch fl w) = httpCalls w" "spawned (beforeFetch fl w) = spawned w"
  "clock (beforeFetch fl w) = clock w" "osErrorText (beforeFetch fl w) = osErrorText w"
  "exePath (beforeFetch fl w) = exePath w" "exeDir (beforeFetch fl w) = exeDir w"
  "network (beforeFetch fl w) = network w"
  by (simp_all add: beforeFetch_def)

text \<open>\<open>generateFortune\<close> changes nothing but the list of requests sent.\<close>

lemma generateFortune_world:
  "snd (generateFortune p k m w) = w \<or>
   snd (generateFortune p k m w) = w\<lparr>httpCalls := httpCalls w @ [buildRequest p k m]\<rparr>"
  by (auto simp: generateFortune_def Let_def split: if_splits http_result.splits stored.splits)

lemma generateFortune_fields [simp]:
  "env (snd (generateFortune p k m w)) = env w"
  "cacheFile (snd (generateFortune p k m w)) = cacheFile w"
  "logFile (snd (generateFortune p k m w)) = logFile w"
  "faults (snd (generateFortune p k m w)) = faults w"
  "spawned (snd (generateFortune p k m w)) = spawned w"
  "clock (snd (generateFortune p k m w)) = clock w"
  "osErrorText (snd (generateFortune p k m w)) = osErrorText w"
  "exePath (snd (generateFortune p k m w)) = exePath w"
  "exeDir (snd (generateFortune p k m w)) = exeDir w"
  "stdout (snd (generateFortune p k m w)) = stdout w"
  "stderr (snd (generateFortune p k m w)) = stderr w"
  using generateFortune_world [of p k m w] by auto

lemma startPrefetch_fields [simp]:
  "env (startPrefetch p k m v w) = env w"
  "cacheFile (startPrefetch p k m v w) = cacheFile w"
  "logFile (startPrefetch p k m v w) = logFile w"
  "faults (startPrefetch p k m v w) = faults w"
  "httpCalls (startPrefetch p k m v w) = httpCalls w"
  by (simp_all add: startPrefetch_def Let_def)

lemma startPrefetch_quiet [simp]:
  "stdout (startPrefetch p k m False w) = stdout w"
  "stderr (startPrefetch p k m False w) = stderr w"
  by (simp_all add: startPrefetch_def Let_def)

text \<open>The process \<open>startPrefetch\<close> starts: the executable of the run, with the worker
  flag, the prompt, the model and, unless it is empty, the key as arguments.\<close>

lemma startPrefetch_spawned:
  "spawned (startPrefetch p k m v w) =
     (if Executable \<in> faults w \<or> StartProcess \<in> faults w then spawned w
      else spawned w @
             [\<lparr>procPath = exePath w,
               procArgv = [exePath w, ''--prefetch-worker'', ''--prompt'', p, ''--model'', m]
                            @ (if k \<noteq> '''' then [''--api-key'', k] else []),
               procDir = exeDir w,
               procEnvAdded = ''FORTUNEBOT_VERBOSE='' @ (if v then ''true'' else ''false'')\<rparr>])"
  by (simp add: startPrefetch_def Let_def prefetchArgs_def showBool_def)

lemma logFortune_fields [simp]:
  "env (logFortune f w) = env w" "cacheFile (logFortune f w) = cacheFile w"
  "faults (logFortune f w) = faults w"
  "httpCalls (logFortune f w) = httpCalls w" "spawned (logFortune f w) = spawned w"
  "clock (logFortune f w) = clock w" "osErrorText (logFortune f w) = osErrorText w"
  "exePath (logFortune f w) = exePath w" "exeDir (logFortune f w) = exeDir w"
  "stdout (logFortune f w) = stdout w"
  by (simp_all add: logFortune_def Let_def)

lemma logFortune_logFile:
  assumes "\<not> isErrorFortune f" "OpenLog \<notin> faults w" "WriteLog \<notin> faults w"
  shows "logFile (logFortune f w) =
           Some ((case logFile w of None \<Rightarrow> [] | Some b \<Rightarrow> b)
                   @ showInt (unixNow w) @ [tab] @ f @ [nl])"
  using assms by (simp add: logFortune_def Let_def)

lemma saveCache_fields [simp]:
  "env (saveCache f w) = env w" "logFile (saveCache f w) = logFile w"
  "faults (saveCache f w) = faults w"
  "httpCalls (saveCache f w) = httpCalls w" "spawned (saveCache f w) = spawned w"
  "clock (saveCache f w) = clock w" "osErrorText (saveCache f w) = osErrorText w"
  "exePath (saveCache f w) = exePath w" "exeDir (saveCache f w) = exeDir w"
  "stdout (saveCache f w) = stdout w"
  by (simp_all add: saveCache_def)

lemma saveCache_cacheFile:
  assumes "\<not> isErrorFortune f" "MkdirData \<notin> faults w" "WriteCache \<notin> faults w"
  shows "cacheFile (saveCache f w) =
           Some (JSON \<lparr>Fortune = jsonString f, Timestamp = unixNow w\<rparr>)"
  using assms by (simp add: saveCache_def)

lemma resolve_env:
  assumes "env w' = env w"
  shows "resolvePromptWithSource cli cfg w' = resolvePromptWithSource cli cfg w"
    and "resolveAPIKeyWithSource cli cfg w' = resolveAPIKeyWithSource cli cfg w"
    and "resolveModelWithSource cli cfg w' = resolveModelWithSource cli cfg w"
  using assms
  by (simp_all add: resolvePromptWithSource_def resolveAPIKeyWithSource_def
      resolveModelWithSource_def)

subsection \<open>Normal mode\<close>

lemma main_normal:
  assumes "normalFlags fl"
  shows "main fl w =
           serve fl (verboseOf fl) (promptOf fl w) (keyOf fl w) (modelOf fl w) (preamble fl w)"
proof -
  let ?w1 = "if flagClearCache fl then clearCache w else w"
  have e: "env ?w1 = env w" by simp
  show ?thesis
    using assms
    by (simp add: main_def normalMode_def normalFlags_def Let_def case_prod_beta
        resolve_env [OF e] preamble_def verboseOf_def promptOf_def keyOf_def modelOf_def
        del: if_split cong: if_cong)
qed

lemma serve_hit:
  assumes "cachingOn fl" "loadCache w = Inr c"
  shows "serve fl v p k m w = serveCached fl v p k m c w"
  using assms by (simp add: serve_def cachingOn_def Let_def)

lemma serve_miss:
  assumes "cachingOn fl \<longrightarrow> isl (loadCache w)"
  shows "serve fl v p k m w =
     fetchFresh fl v (cachingOn fl) p k m
       (if v then println (if cachingOn fl
                             then ''[fortunebot] No cache found. Fetching fresh fortune...''
                           else ''[fortunebot] Caching disabled. Fetching fresh fortune...'') w
        else w)"
  using assms by (auto simp add: serve_def cachingOn_def Let_def split: sum.splits)

lemma main_miss:
  assumes "normalFlags fl" "cachingOn fl \<longrightarrow> isl (loadCache (preamble fl w))"
  shows "main fl w =
           fetchFresh fl (verboseOf fl) (cachingOn fl) (promptOf fl w) (keyOf fl w) (modelOf fl w)
             (beforeFetch fl w)"
  using assms by (simp add: main_normal serve_miss beforeFetch_def)

text \<open>Fresh or stale, \<open>serveCached\<close> does the same; only the verbose line differs.\<close>

lemma serveCached_eq:
  "\<exists>notice. serveCached fl v p k m c w =
     (0, (if flagNoPrefetch fl then println (Fortune c) (if v then printOut notice w else w)
          else startPrefetch p k m v (println (Fortune c) (if v then printOut notice w else w))))"
proof (cases "cacheIsFresh c (flagCacheTTL fl) w")
  case True
  then show ?thesis
    by (intro exI [of _ "''[fortunebot] Using fresh cache (age '' @ formatAge (Timestamp c) w
          @ '' < TTL '' @ showInt (flagCacheTTL fl) @ ''s).'' @ [nl]"])
       (simp add: serveCached_def Let_def)
next
  case False
  then show ?thesis
    by (intro exI [of _ "''[fortunebot] Cache stale (age '' @ formatAge (Timestamp c) w
          @ '' >= TTL '' @ showInt (flagCacheTTL fl)
          @ ''s). Serving stale and refreshing now...'' @ [nl]"])
       (simp add: serveCached_def Let_def)
qed

lemma fetchFresh_ok:
  assumes "fst (generateFortune p k m w) = Inr f"
  shows "fetchFresh fl v c p k m w =
           (0, if c
               then (if flagNoPrefetch fl
                     then saveCache f (println f (logFortune f (snd (generateFortune p k m w))))
                     else startPrefetch p k m v
                            (saveCache f (println f (logFortune f (snd (generateFortune p k m w))))))
               else println f (logFortune f (snd (generateFortune p k m w))))"
  using assms by (cases "generateFortune p k m w") (simp add: fetchFresh_def Let_def)

lemma fetchFresh_fail:
  assumes "fst (generateFortune p k m w) = Inl e"
  shows "fetchFresh fl v c p k m w =
           (1, printErr (''[fortunebot] Error: '' @ errorText e @ [nl])
                 (snd (generateFortune p k m w)))"
  using assms by (cases "generateFortune p k m w") (simp add: fetchFresh_def Let_def)


subsection \<open>The concrete worlds, evaluated\<close>

lemma loadConfig_world0 [simp]:
  "loadConfig world0 = builtinConfig" "loadConfig worldKey = builtinConfig"
  "loadConfig worldStale = builtinConfig" "loadConfig worldDown = builtinConfig"
  by (simp_all add: loadConfig_def world0_def worldKey_def worldStale_def worldDown_def)

lemma TrimSpace_defaults [simp]:
  "TrimSpace defaultModel = defaultModel" "TrimSpace defaultPrompt = defaultPrompt"
  by (simp_all add: string_defs defaultModel_def defaultPrompt_def)

lemma defaults_nonempty [simp]: "defaultModel \<noteq> ''''" "defaultPrompt \<noteq> ''''"
  by (simp_all add: defaultModel_def defaultPrompt_def)

lemma flags0_simps [simp]:
  "normalFlags flags0" "cachingOn flags0" "\<not> verboseOf flags0"
  "\<not> flagClearCache flags0" "\<not> flagNoPrefetch flags0"
  "normalFlags flagsNoCache" "\<not> cachingOn flagsNoCache" "\<not> verboseOf flagsNoCache"
  "\<not> flagClearCache flagsNoCache" "\<not> flagNoPrefetch flagsNoCache"
  "flagPrefetchWork flagsWorker"
  by (simp_all add: flags0_def flagsNoCache_def flagsWorker_def normalFlags_def cachingOn_def
      verboseOf_def cacheTTLDefault_def)

lemma preamble_quiet [simp]:
  "preamble flags0 w = w" "preamble flagsNoCache w = w"
  "beforeFetch flags0 w = w" "beforeFetch flagsNoCache w = w"
  by (simp_all add: preamble_def beforeFetch_def Let_def)

lemma env_worlds [simp]:
  "env world0 k = ''''"
  "env worldKey k = (if k = ''OPENAI_API_KEY'' then ''sk-test'' else '''')"
  "env worldStale k = env worldKey k" "env worldDown k = env worldKey k"
  by (simp_all add: world0_def worldKey_def worldStale_def worldDown_def)

lemma TrimSpace_consts [simp]:
  "TrimSpace ''Tell a fortune.'' = ''Tell a fortune.''"
  "TrimSpace ''gpt-4o-mini'' = ''gpt-4o-mini''"
  "TrimSpace ''sk-test'' = ''sk-test''"
  by (simp_all add: string_defs)

lemma flags_blank [simp]:
  "flagPrompt flags0 = ''''" "flagModel flags0 = ''''" "flagAPIKey flags0 = ''''"
  "flagPrompt flagsNoCache = ''''" "flagModel flagsNoCache = ''''" "flagAPIKey flagsNoCache = ''''"
  "flagPrompt flagsRandom = ''''" "flagModel flagsRandom = ''''" "flagAPIKey flagsRandom = ''''"
  by (simp_all add: flags0_def flagsNoCache_def flagsRandom_def)

lemma resolved_defaults:
  assumes "flagPrompt fl = ''''" "flagModel fl = ''''" "flagAPIKey fl = ''''"
    and "loadConfig w = builtinConfig"
    and "env w ''FORTUNEBOT_PROMPT'' = ''''" "env w ''FORTUNEBOT_MODEL'' = ''''"
    and "env w ''OPENAI_MODEL'' = ''''" "env w ''FORTUNEBOT_API_KEY'' = ''''"
  shows "promptOf fl w = defaultPrompt" "modelOf fl w = defaultModel"
    "keyOf fl w = env w ''OPENAI_API_KEY''"
  using assms
  by (simp_all add: promptOf_def modelOf_def keyOf_def resolvePromptWithSource_def
      resolveModelWithSource_def resolveAPIKeyWithSource_def builtinConfig_def)

lemma resolved_worker [simp]:
  "promptOf flagsWorker w = ''Tell a fortune.''" "modelOf flagsWorker w = ''gpt-4o-mini''"
  "keyOf flagsWorker w = ''sk-test''"
  by (simp_all add: promptOf_def modelOf_def keyOf_def resolvePromptWithSource_def
      resolveModelWithSource_def resolveAPIKeyWithSource_def flagsWorker_def flags0_def)

lemma syncFetch_fields [simp]:
  "env (snd (syncFetch fl w)) = env w"
  "cacheFile (snd (syncFetch fl w)) = cacheFile (preamble fl w)"
  "logFile (snd (syncFetch fl w)) = logFile w"
  "faults (snd (syncFetch fl w)) = faults w"
  "spawned (snd (syncFetch fl w)) = spawned w"
  "clock (snd (syncFetch fl w)) = clock w"
  "exePath (snd (syncFetch fl w)) = exePath w"
  "exeDir (snd (syncFetch fl w)) = exeDir w"
  "stdout (snd (syncFetch fl w)) = stdout (beforeFetch fl w)"
  "stderr (snd (syncFetch fl w)) = stderr (beforeFetch fl w)"
  by (simp_all add: syncFetch_def)

lemma main_fetch_ok:
  assumes "normalFlags fl" "cachingOn fl \<longrightarrow> isl (loadCache (preamble fl w))"
    "fst (syncFetch fl w) = Inr f"
  shows "main fl w =
           (0, if cachingOn fl
               then (if flagNoPrefetch fl
                     then saveCache f (println f (logFortune f (snd (syncFetch fl w))))
                     else startPrefetch (promptOf fl w) (keyOf fl w) (modelOf fl w) (verboseOf fl)
                            (saveCache f (println f (logFortune f (snd (syncFetch fl w))))))
               else println f (logFortune f (snd (syncFetch fl w))))"
  using assms unfolding syncFetch_def by (simp add: main_miss fetchFresh_ok)

lemma main_fetch_fail:
  assumes "normalFlags fl" "cachingOn fl \<longrightarrow> isl (loadCache (preamble fl w))"
    "fst (syncFetch fl w) = Inl e"
  shows "main fl w =
           (1, printErr (''[fortunebot] Error: '' @ errorText e @ [nl]) (snd (syncFetch fl w)))"
  using assms unfolding syncFetch_def by (simp add: main_miss fetchFresh_fail)

lemma unixNow_clock: "clock w' = clock w \<Longrightarrow> unixNow w' = unixNow w"
  by (simp add: unixNow_def nowSec_def)


lemma worlds_fields [simp]:
  "faults world0 = {}" "faults worldKey = {}" "faults worldStale = {}" "faults worldDown = {}"
  "cacheFile world0 = None" "cacheFile worldKey = None"
  "cacheFile worldDown = Some (JSON staleEntry)"
  "cacheFile worldStale = Some (JSON staleEntry)"
  "logFile world0 = None" "logFile worldKey = None" "logFile worldStale = None"
  "logFile worldDown = Some oldLog"
  "httpCalls world0 = []" "httpCalls worldKey = []" "httpCalls worldStale = []" "httpCalls worldDown = []"
  "spawned world0 = []" "spawned worldKey = []" "spawned worldStale = []" "spawned worldDown = []"
  "stdout world0 = []" "stdout worldKey = []" "stdout worldStale = []" "stdout worldDown = []"
  "stderr world0 = []" "stderr worldKey = []" "stderr worldStale = []" "stderr worldDown = []"
  "network world0 r = goodReply" "network worldKey r = goodReply" "network worldStale r = goodReply"
  "network worldDown r = DoError ''connection refused''"
  "unixNow world0 = 1700000000" "unixNow worldKey = 1700000000" "unixNow worldStale = 1700000000"
  "exePath worldKey = ''/usr/local/bin/fortunebot''" "exeDir worldKey = ''/usr/local/bin''"
  "exePath worldStale = ''/usr/local/bin/fortunebot''" "exeDir worldStale = ''/usr/local/bin''"
  by (simp_all add: world0_def worldKey_def worldStale_def worldDown_def unixNow_def
      nowSec_def unixToInternal_def wrap64_def)

lemma showInt_now: "showInt 1700000000 = ''1700000000''"
  by (simp add: showInt_def showNat.simps digit_def)

lemma extract_good:
  "extractFortune \<lparr>Output = [[''Good luck.'']], OutputText = ''''\<rparr> = ''Good luck.''"
  by (simp add: extractFortune_def string_defs)

lemma generate_good:
  assumes "k \<noteq> ''''" "network w (buildRequest p k m) = goodReply"
  shows "generateFortune p k m w =
           (Inr (marker @ ''Good luck.''), w\<lparr>httpCalls := httpCalls w @ [buildRequest p k m]\<rparr>)"
  using assms by (simp add: generateFortune_def goodReply_def extract_good Let_def)

lemma generate_down:
  assumes "k \<noteq> ''''" "network w (buildRequest p k m) = DoError e"
  shows "generateFortune p k m w =
           (Inl (Transport e), w\<lparr>httpCalls := httpCalls w @ [buildRequest p k m]\<rparr>)"
  using assms by (simp add: generateFortune_def Let_def)

lemma syncFetch_worldKey:
  "fst (syncFetch flagsNoCache worldKey) = Inr (marker @ ''Good luck.'')"
  "fst (syncFetch flags0 worldKey) = Inr (marker @ ''Good luck.'')"
  by (simp_all add: syncFetch_def generate_good resolved_defaults)



subsection \<open>Log-random mode\<close>

lemma randomFortuneFromLog_randSource:
  assumes "logFile w = Some b" "ReadLog \<notin> faults w" "i < length (collectFortunes (Split b nl))"
  shows "randomFortuneFromLog (w\<lparr>randSource := i\<rparr>) = Inr (collectFortunes (Split b nl) ! i)"
proof -
  from assms(3) have "collectFortunes (Split b nl) \<noteq> []"
    by auto
  then show ?thesis
    using assms by (simp add: randomFortuneFromLog_def readLog_def randIntn_def Let_def)
qed

lemma main_logRandom:
  assumes "flagLogRandom fl" "\<not> flagPrefetchWork fl" "\<not> flagShowLog fl"
  shows "main fl w =
           (case randomFortuneFromLog w of
              Inl err \<Rightarrow> (1, printErr (''[fortunebot] '' @ err @ [nl]) w)
            | Inr f \<Rightarrow>
                (0, println f
                      (if verboseOf fl
                       then println ''[fortunebot] Showing random fortune from log (no API call).'' w
                       else w)))"
  using assms by (auto simp: main_def Let_def verboseOf_def split: sum.splits)

lemma logText_entries: "collectFortunes (Split logText nl) = [''Hello'', ''World'']"
  by (simp add: collectFortunes_eq logText_def nl_def tab_def TrimSpace_def asciiSpace_def
      space2_def space3_def del: collectFortunes.simps)

lemma junk_entries: "collectFortunes (Split ''bad line'' nl) = []"
  by (simp add: collectFortunes_eq nl_def tab_def del: collectFortunes.simps)

lemma flagsRandom_simps [simp]:
  "flagLogRandom flagsRandom" "\<not> flagPrefetchWork flagsRandom" "\<not> flagShowLog flagsRandom"
  "\<not> verboseOf flagsRandom"
  by (simp_all add: flagsRandom_def flags0_def verboseOf_def)

subsection \<open>More of the concrete worlds\<close>

lemma staleEntry_ok: "\<not> isErrorFortune (Fortune staleEntry)"
  by (simp add: staleEntry_def string_defs)

lemma syncFetch_worldDown:
  "fst (syncFetch flagsNoCache worldDown) = Inl (Transport ''connection refused'')"
  by (simp add: syncFetch_def generate_down resolved_defaults)

lemma worker_worldDown:
  "fst (generateFortune (promptOf flagsWorker worldDown) (keyOf flagsWorker worldDown)
          (modelOf flagsWorker worldDown) worldDown) = Inl (Transport ''connection refused'')"
  by (simp add: generate_down)

lemma tagged: "isErrorFortune taggedText"
  by (simp add: taggedText_def string_defs)

lemma flagsClear_simps [simp]:
  "normalFlags flagsClear" "cachingOn flagsClear" "\<not> verboseOf flagsClear"
  "flagClearCache flagsClear"
  "flagPrompt flagsClear = ''''" "flagModel flagsClear = ''''" "flagAPIKey flagsClear = ''''"
  by (simp_all add: flagsClear_def flags0_def normalFlags_def cachingOn_def verboseOf_def
      cacheTTLDefault_def)

lemma preamble_flagsClear:
  "preamble flagsClear worldDown =
     println ''[fortunebot] Cache cleared.'' (worldDown\<lparr>cacheFile := None\<rparr>)"
  by (simp add: preamble_def clearCache_def Let_def)

lemma syncFetch_flagsClear:
  "fst (syncFetch flagsClear worldDown) = Inl (Transport ''connection refused'')"
  by (simp add: syncFetch_def generate_down resolved_defaults)

lemma worldSpace_fields [simp]:
  "env worldSpace k = (if k = ''FORTUNEBOT_API_KEY'' then '' '' else '''')"
  "loadConfig worldSpace = builtinConfig"
  "network worldSpace r = goodReply" "httpCalls worldSpace = []"
  by (simp_all add: worldSpace_def world0_def loadConfig_def)





subsection \<open>Times and ages\<close>

lemma bitLen_numeral:
  "bitLen 0 = 0" "bitLen 1 = 1" "bitLen (numeral k) = Suc (bitLen (numeral k div 2))"
  by (simp_all add: bitLen.simps)

text \<open>\<open>time.Unix\<close> wraps from the timestamp 9223371974719179008 on; the age of such an
  entry is the largest \<open>Duration\<close>, and the entry is stale.\<close>

lemma timeUnix_wraps: "timeUnix 9223371974719179008 = minInt64"
  by (simp add: timeUnix_def unixToInternal_def wrap64_def minInt64_def)

lemma timeSince_wrapped_timestamp: "timeSince world0 9223371974719179008 = maxInt64"
  by (simp add: timeSince_def nowSec_def timeUnix_def unixToInternal_def satDuration_def
      wrap64_def world0_def minInt64_def maxInt64_def)

lemma wrapped_timestamp_stale:
  "\<not> cacheIsFresh \<lparr>Fortune = marker @ ''Good luck.'', Timestamp = 9223371974719179008\<rparr> 60 world0"
  by (simp add: cacheIsFresh_def timeSince_wrapped_timestamp wrap64_def maxInt64_def)

text \<open>The seconds of an age are rounded by the \<open>float64\<close> before \<open>int\<close> drops the
  fraction: an age of 1700000000.999999999 seconds prints as 1700000001.\<close>

lemma durationSeconds_rounds_up:
  "truncFloat64 (durationSeconds 1700000000999999999) = 1700000001"
  by (simp add: truncFloat64_def durationSeconds_def float64_def roundHalfEven_def quotTrunc_def
      bitLen_numeral Let_def)

lemma durationSeconds_small: "truncFloat64 (durationSeconds 3600500000000) = 3600"
  by (simp add: truncFloat64_def durationSeconds_def float64_def roundHalfEven_def quotTrunc_def
      bitLen_numeral Let_def)

lemma formatAge_rounds_up:
  "formatAge 0 (world0\<lparr>clock := 1700000000999999999\<rparr>) = ''1700000001s''"
proof -
  have "timeSince (world0\<lparr>clock := 1700000000999999999\<rparr>) 0 = 1700000000999999999"
    by (simp add: timeSince_def nowSec_def timeUnix_def unixToInternal_def satDuration_def
        wrap64_def minInt64_def maxInt64_def)
  then show ?thesis
    by (simp add: formatAge_def durationSeconds_rounds_up showInt_def showNat.simps digit_def)
qed

section \<open>The claims\<close>

subsection \<open>C1: a successful synchronous fetch\<close>

text \<open>C1, amended. In normal mode with caching disabled (\<open>--no-cache\<close> set or a TTL that
  is not greater than 0), a synchronous fetch that succeeds appends the fortune to the
  log and prints it, and does nothing else: the cache file is not written and no
  background worker is started, whatever \<open>--no-prefetch\<close> says. With caching enabled
  and no cache entry loaded, the same fetch also saves the fortune to the cache and,
  unless \<open>--no-prefetch\<close> is set, starts a worker with the same resolved prompt, model
  and key.\<close>

theorem sync_fetch_success:
  "(normalFlags fl \<and> \<not> cachingOn fl \<and> fst (syncFetch fl w) = Inr f \<longrightarrow>
      main fl w = (0, println f (logFortune f (snd (syncFetch fl w))))
      \<and> stdout (snd (main fl w)) = stdout (beforeFetch fl w) @ f @ [nl]
      \<and> (OpenLog \<notin> faults w \<and> WriteLog \<notin> faults w \<longrightarrow>
            logFile (snd (main fl w)) =
              Some ((case logFile w of None \<Rightarrow> [] | Some b \<Rightarrow> b)
                      @ showInt (unixNow w) @ [tab] @ f @ [nl]))
      \<and> cacheFile (snd (main fl w)) = cacheFile (preamble fl w)
      \<and> spawned (snd (main fl w)) = spawned w)
   \<and> (normalFlags fl \<and> cachingOn fl \<and> isl (loadCache (preamble fl w))
        \<and> fst (syncFetch fl w) = Inr f \<longrightarrow>
      main fl w =
        (0, if flagNoPrefetch fl
            then saveCache f (println f (logFortune f (snd (syncFetch fl w))))
            else startPrefetch (promptOf fl w) (keyOf fl w) (modelOf fl w) (verboseOf fl)
                   (saveCache f (println f (logFortune f (snd (syncFetch fl w))))))
      \<and> (MkdirData \<notin> faults w \<and> WriteCache \<notin> faults w \<longrightarrow>
            cacheFile (snd (main fl w)) =
              Some (JSON \<lparr>Fortune = jsonString f, Timestamp = unixNow w\<rparr>))
      \<and> spawned (snd (main fl w)) =
          (if flagNoPrefetch fl \<or> Executable \<in> faults w \<or> StartProcess \<in> faults w
           then spawned w
           else spawned w @
                  [\<lparr>procPath = exePath w,
                    procArgv = [exePath w, ''--prefetch-worker'', ''--prompt'', promptOf fl w,
                                ''--model'', modelOf fl w]
                                 @ (if keyOf fl w \<noteq> '''' then [''--api-key'', keyOf fl w] else []),
                    procDir = exeDir w,
                    procEnvAdded = ''FORTUNEBOT_VERBOSE=''
                                     @ (if verboseOf fl then ''true'' else ''false'')\<rparr>]))"
proof (intro conjI impI)
  assume a: "normalFlags fl \<and> \<not> cachingOn fl \<and> fst (syncFetch fl w) = Inr f"
  then have m: "main fl w = (0, println f (logFortune f (snd (syncFetch fl w))))"
    by (simp add: main_fetch_ok)
  have ne: "\<not> isErrorFortune f"
    using a unfolding syncFetch_def by (auto dest: generateFortune_not_error)
  show "main fl w = (0, println f (logFortune f (snd (syncFetch fl w))))"
    by (rule m)
  show "stdout (snd (main fl w)) = stdout (beforeFetch fl w) @ f @ [nl]"
    by (simp add: m)
  show "cacheFile (snd (main fl w)) = cacheFile (preamble fl w)"
    by (simp add: m)
  show "spawned (snd (main fl w)) = spawned w"
    by (simp add: m)
  assume "OpenLog \<notin> faults w \<and> WriteLog \<notin> faults w"
  then show "logFile (snd (main fl w)) =
              Some ((case logFile w of None \<Rightarrow> [] | Some b \<Rightarrow> b)
                      @ showInt (unixNow w) @ [tab] @ f @ [nl])"
    using ne by (simp add: m logFortune_logFile unixNow_clock [of "snd (syncFetch fl w)" w])
next
  assume a: "normalFlags fl \<and> cachingOn fl \<and> isl (loadCache (preamble fl w))
        \<and> fst (syncFetch fl w) = Inr f"
  let ?S = "saveCache f (println f (logFortune f (snd (syncFetch fl w))))"
  have m: "main fl w =
        (0, if flagNoPrefetch fl then ?S
            else startPrefetch (promptOf fl w) (keyOf fl w) (modelOf fl w) (verboseOf fl) ?S)"
    using a by (simp add: main_fetch_ok)
  have ne: "\<not> isErrorFortune f"
    using a unfolding syncFetch_def by (auto dest: generateFortune_not_error)
  show "main fl w =
        (0, if flagNoPrefetch fl then ?S
            else startPrefetch (promptOf fl w) (keyOf fl w) (modelOf fl w) (verboseOf fl) ?S)"
    by (rule m)
  show "spawned (snd (main fl w)) =
          (if flagNoPrefetch fl \<or> Executable \<in> faults w \<or> StartProcess \<in> faults w
           then spawned w
           else spawned w @
                  [\<lparr>procPath = exePath w,
                    procArgv = [exePath w, ''--prefetch-worker'', ''--prompt'', promptOf fl w,
                                ''--model'', modelOf fl w]
                                 @ (if keyOf fl w \<noteq> '''' then [''--api-key'', keyOf fl w] else []),
                    procDir = exeDir w,
                    procEnvAdded = ''FORTUNEBOT_VERBOSE=''
                                     @ (if verboseOf fl then ''true'' else ''false'')\<rparr>])"
    by (simp add: m startPrefetch_spawned)
  assume "MkdirData \<notin> faults w \<and> WriteCache \<notin> faults w"
  then show "cacheFile (snd (main fl w)) =
              Some (JSON \<lparr>Fortune = jsonString f, Timestamp = unixNow w\<rparr>)"
    using ne by (simp add: m saveCache_cacheFile unixNow_def nowSec_def)
qed

text \<open>The theorem at two runs with the key set and nothing cached: one with
  \<open>--no-cache\<close>, one with the default flags.\<close>

theorem sync_fetch_success_witness:
  "fst (main flagsNoCache worldKey) = 0
   \<and> stdout (snd (main flagsNoCache worldKey)) = marker @ ''Good luck.'' @ [nl]
   \<and> logFile (snd (main flagsNoCache worldKey)) =
       Some (''1700000000'' @ [tab] @ marker @ ''Good luck.'' @ [nl])
   \<and> cacheFile (snd (main flagsNoCache worldKey)) = None
   \<and> spawned (snd (main flagsNoCache worldKey)) = []
   \<and> fst (main flags0 worldKey) = 0
   \<and> cacheFile (snd (main flags0 worldKey)) =
       Some (JSON \<lparr>Fortune = marker @ ''Good luck.'', Timestamp = 1700000000\<rparr>)
   \<and> spawned (snd (main flags0 worldKey)) =
       [\<lparr>procPath = ''/usr/local/bin/fortunebot'',
         procArgv = [''/usr/local/bin/fortunebot'', ''--prefetch-worker'',
                     ''--prompt'', defaultPrompt, ''--model'', defaultModel,
                     ''--api-key'', ''sk-test''],
         procDir = ''/usr/local/bin'',
         procEnvAdded = ''FORTUNEBOT_VERBOSE=false''\<rparr>]"
proof -
  have h1: "normalFlags flagsNoCache \<and> \<not> cachingOn flagsNoCache
              \<and> fst (syncFetch flagsNoCache worldKey) = Inr (marker @ ''Good luck.'')"
    by (simp add: syncFetch_worldKey)
  have h2: "normalFlags flags0 \<and> cachingOn flags0 \<and> isl (loadCache (preamble flags0 worldKey))
              \<and> fst (syncFetch flags0 worldKey) = Inr (marker @ ''Good luck.'')"
    by (simp add: syncFetch_worldKey loadCache_def)
  note off = sync_fetch_success [of flagsNoCache worldKey "marker @ ''Good luck.''",
      THEN conjunct1, rule_format, OF h1]
  note on = sync_fetch_success [of flags0 worldKey "marker @ ''Good luck.''",
      THEN conjunct2, rule_format, OF h2]
  have 1: "fst (main flagsNoCache worldKey) = 0"
    using off [THEN conjunct1] by simp
  have 2: "stdout (snd (main flagsNoCache worldKey)) = marker @ ''Good luck.'' @ [nl]"
    using off [THEN conjunct2, THEN conjunct1] by simp
  have 3: "logFile (snd (main flagsNoCache worldKey)) =
       Some (''1700000000'' @ [tab] @ marker @ ''Good luck.'' @ [nl])"
    using off [THEN conjunct2, THEN conjunct2, THEN conjunct1] by (simp add: showInt_now)
  have 4: "cacheFile (snd (main flagsNoCache worldKey)) = None"
    using off [THEN conjunct2, THEN conjunct2, THEN conjunct2, THEN conjunct1] by simp
  have 5: "spawned (snd (main flagsNoCache worldKey)) = []"
    using off [THEN conjunct2, THEN conjunct2, THEN conjunct2, THEN conjunct2] by simp
  have 6: "fst (main flags0 worldKey) = 0"
    using on [THEN conjunct1] by simp
  have 7: "cacheFile (snd (main flags0 worldKey)) =
       Some (JSON \<lparr>Fortune = marker @ ''Good luck.'', Timestamp = 1700000000\<rparr>)"
    using on [THEN conjunct2, THEN conjunct1] by (simp add: jsonString_good)
  have 8: "spawned (snd (main flags0 worldKey)) =
       [\<lparr>procPath = ''/usr/local/bin/fortunebot'',
         procArgv = [''/usr/local/bin/fortunebot'', ''--prefetch-worker'',
                     ''--prompt'', defaultPrompt, ''--model'', defaultModel,
                     ''--api-key'', ''sk-test''],
         procDir = ''/usr/local/bin'',
         procEnvAdded = ''FORTUNEBOT_VERBOSE=false''\<rparr>]"
    using on [THEN conjunct2, THEN conjunct2] by (simp add: resolved_defaults)
  show ?thesis
    using 1 2 3 4 5 6 7 8 by blast
qed

text \<open>The claim as the specification states it fails: with \<open>--no-cache\<close> and without
  \<open>--no-prefetch\<close>, a fetch that succeeds leaves the cache file absent and starts no
  process.\<close>

theorem nocache_fetch_saves_nothing_spawns_nothing:
  "flagNoCache flagsNoCache \<and> \<not> flagNoPrefetch flagsNoCache
   \<and> fst (main flagsNoCache worldKey) = 0
   \<and> stdout (snd (main flagsNoCache worldKey)) = marker @ ''Good luck.'' @ [nl]
   \<and> cacheFile (snd (main flagsNoCache worldKey)) = None
   \<and> spawned (snd (main flagsNoCache worldKey)) = []"
proof -
  have m: "main flagsNoCache worldKey =
             (0, println (marker @ ''Good luck.'')
                   (logFortune (marker @ ''Good luck.'') (snd (syncFetch flagsNoCache worldKey))))"
    by (simp add: main_fetch_ok syncFetch_worldKey)
  show ?thesis
    by (simp add: m) (simp add: flagsNoCache_def flags0_def)
qed

subsection \<open>C2: a cache entry that loads is served\<close>

text \<open>C2. In normal mode with caching enabled, whenever \<open>loadCache\<close> succeeds, the run
  prints the cached fortune, starts a background worker with the resolved prompt, key
  and model unless \<open>--no-prefetch\<close> is set (the worker is in \<open>spawned\<close> when the
  operating system starts it), and exits with status 0. No request is sent, and the
  cache file and the log are left as they are. Whether the entry is fresh or stale
  decides one verbose line (\<open>notice\<close>) and nothing else.\<close>

theorem cache_hit_serves_without_fetch:
  assumes "normalFlags fl" and "cachingOn fl" and "loadCache (preamble fl w) = Inr c"
  shows "(\<exists>notice. main fl w =
            (0, if flagNoPrefetch fl
                then println (Fortune c)
                       (if verboseOf fl then printOut notice (preamble fl w) else preamble fl w)
                else startPrefetch (promptOf fl w) (keyOf fl w) (modelOf fl w) (verboseOf fl)
                       (println (Fortune c)
                          (if verboseOf fl then printOut notice (preamble fl w)
                           else preamble fl w))))
       \<and> fst (main fl w) = 0
       \<and> httpCalls (snd (main fl w)) = httpCalls w
       \<and> logFile (snd (main fl w)) = logFile w
       \<and> cacheFile (snd (main fl w)) = cacheFile (preamble fl w)
       \<and> spawned (snd (main fl w)) =
           (if flagNoPrefetch fl \<or> Executable \<in> faults w \<or> StartProcess \<in> faults w
            then spawned w
           else spawned w @
                  [\<lparr>procPath = exePath w,
                    procArgv = [exePath w, ''--prefetch-worker'', ''--prompt'', promptOf fl w,
                                ''--model'', modelOf fl w]
                                 @ (if keyOf fl w \<noteq> '''' then [''--api-key'', keyOf fl w] else []),
                    procDir = exeDir w,
                    procEnvAdded = ''FORTUNEBOT_VERBOSE=''
                                     @ (if verboseOf fl then ''true'' else ''false'')\<rparr>])
       \<and> (\<not> verboseOf fl \<longrightarrow>
            stdout (snd (main fl w)) = stdout (preamble fl w) @ Fortune c @ [nl])"
proof -
  let ?p = "promptOf fl w" and ?k = "keyOf fl w" and ?m = "modelOf fl w" and ?v = "verboseOf fl"
  have m: "main fl w = serveCached fl ?v ?p ?k ?m c (preamble fl w)"
    using assms by (simp add: main_normal serve_hit)
  obtain notice where n: "serveCached fl ?v ?p ?k ?m c (preamble fl w) =
     (0, if flagNoPrefetch fl
         then println (Fortune c) (if ?v then printOut notice (preamble fl w) else preamble fl w)
         else startPrefetch ?p ?k ?m ?v
                (println (Fortune c) (if ?v then printOut notice (preamble fl w) else preamble fl w)))"
    using serveCached_eq by blast
  have 1: "\<exists>notice. main fl w =
            (0, if flagNoPrefetch fl
                then println (Fortune c) (if ?v then printOut notice (preamble fl w) else preamble fl w)
                else startPrefetch ?p ?k ?m ?v
                       (println (Fortune c)
                          (if ?v then printOut notice (preamble fl w) else preamble fl w)))"
    using m n by auto
  have 2: "fst (main fl w) = 0"
    by (simp add: m n)
  have 3: "httpCalls (snd (main fl w)) = httpCalls w"
    by (simp add: m n)
  have 4: "logFile (snd (main fl w)) = logFile w"
    by (simp add: m n)
  have 5: "cacheFile (snd (main fl w)) = cacheFile (preamble fl w)"
    by (simp add: m n)
  have 6: "spawned (snd (main fl w)) =
           (if flagNoPrefetch fl \<or> Executable \<in> faults w \<or> StartProcess \<in> faults w
            then spawned w
            else spawned w @
                   [\<lparr>procPath = exePath w,
                     procArgv = [exePath w, ''--prefetch-worker'', ''--prompt'', ?p, ''--model'', ?m]
                                  @ (if ?k \<noteq> '''' then [''--api-key'', ?k] else []),
                     procDir = exeDir w,
                     procEnvAdded = ''FORTUNEBOT_VERBOSE='' @ (if ?v then ''true'' else ''false'')\<rparr>])"
    by (simp add: m n startPrefetch_spawned)
  have 7: "\<not> ?v \<longrightarrow> stdout (snd (main fl w)) = stdout (preamble fl w) @ Fortune c @ [nl]"
    using m n by (cases "flagNoPrefetch fl") auto
  show ?thesis
    using 1 2 3 4 5 6 7 by blast
qed

text \<open>The scenario of the specification: an entry written 3600 seconds ago, a TTL of
  60 seconds.\<close>

theorem cache_hit_serves_without_fetch_witness:
  "\<not> cacheIsFresh staleEntry (flagCacheTTL flags0) worldStale
   \<and> fst (main flags0 worldStale) = 0
   \<and> stdout (snd (main flags0 worldStale)) = ''Stale wisdom.'' @ [nl]
   \<and> httpCalls (snd (main flags0 worldStale)) = []
   \<and> cacheFile (snd (main flags0 worldStale)) = Some (JSON staleEntry)
   \<and> spawned (snd (main flags0 worldStale)) =
       [\<lparr>procPath = ''/usr/local/bin/fortunebot'',
         procArgv = [''/usr/local/bin/fortunebot'', ''--prefetch-worker'',
                     ''--prompt'', defaultPrompt, ''--model'', defaultModel,
                     ''--api-key'', ''sk-test''],
         procDir = ''/usr/local/bin'',
         procEnvAdded = ''FORTUNEBOT_VERBOSE=false''\<rparr>]"
proof -
  have h: "loadCache (preamble flags0 worldStale) = Inr staleEntry"
    by (simp add: loadCache_def staleEntry_ok)
  note t = cache_hit_serves_without_fetch [of flags0 worldStale staleEntry, OF _ _ h, simplified]
  have 0: "\<not> cacheIsFresh staleEntry (flagCacheTTL flags0) worldStale"
    by (simp add: cacheIsFresh_def timeSince_def nowSec_def timeUnix_def unixToInternal_def
        satDuration_def wrap64_def minInt64_def maxInt64_def staleEntry_def flags0_def cacheTTLDefault_def worldStale_def worldKey_def
        world0_def)
  have 1: "fst (main flags0 worldStale) = 0"
    using t by simp
  have 2: "stdout (snd (main flags0 worldStale)) = ''Stale wisdom.'' @ [nl]"
    using t [THEN conjunct2] by (simp add: staleEntry_def)
  have 3: "httpCalls (snd (main flags0 worldStale)) = []"
    using t [THEN conjunct2] by simp
  have 4: "cacheFile (snd (main flags0 worldStale)) = Some (JSON staleEntry)"
    using t [THEN conjunct2] by simp
  have 5: "spawned (snd (main flags0 worldStale)) =
       [\<lparr>procPath = ''/usr/local/bin/fortunebot'',
         procArgv = [''/usr/local/bin/fortunebot'', ''--prefetch-worker'',
                     ''--prompt'', defaultPrompt, ''--model'', defaultModel,
                     ''--api-key'', ''sk-test''],
         procDir = ''/usr/local/bin'',
         procEnvAdded = ''FORTUNEBOT_VERBOSE=false''\<rparr>]"
    using t [THEN conjunct2] by (simp add: resolved_defaults)
  show ?thesis
    using 0 1 2 3 4 5 by blast
qed

subsection \<open>C3: the provenance of a default\<close>

text \<open>C3. The claim says that a prompt or model which no flag, environment variable or
  config file supplies resolves to the built-in default with a provenance that names
  the built-in default. The code gives the value and names the config file:
  \<open>loadConfig\<close> has already put the defaults into the config it returns, so the
  resolvers take their fourth branch. Here with no flag, no variable and no config
  file. (The key, which \<open>loadConfig\<close> leaves alone, resolves to the empty string with
  \<open>none found\<close>.)\<close>

theorem default_provenance_names_config_file:
  "configFile world0 = None
   \<and> flagModel flags0 = '''' \<and> env world0 ''FORTUNEBOT_MODEL'' = '''' \<and> env world0 ''OPENAI_MODEL'' = ''''
   \<and> flagPrompt flags0 = '''' \<and> env world0 ''FORTUNEBOT_PROMPT'' = ''''
   \<and> resolveModelWithSource (flagModel flags0) (loadConfig world0) world0
       = (defaultModel, ''~/.config/fortunebot/config.json'')
   \<and> resolvePromptWithSource (flagPrompt flags0) (loadConfig world0) world0
       = (defaultPrompt, ''~/.config/fortunebot/config.json'')
   \<and> resolveAPIKeyWithSource (flagAPIKey flags0) (loadConfig world0) world0 = ('''', ''none found'')"
proof -
  have "configFile world0 = None"
    by (simp add: world0_def)
  then show ?thesis
    by (simp add: resolveModelWithSource_def resolvePromptWithSource_def
        resolveAPIKeyWithSource_def builtinConfig_def configSource_def)
qed

subsection \<open>C4 and C10: the TTL as a duration\<close>

text \<open>Where \<open>ttl * 1000000000\<close> fits an \<open>int64\<close>, that is for every TTL up to
  9223372036 seconds, and for a clock and a timestamp that \<open>time.Time\<close> holds without
  wrapping, \<open>cacheIsFresh\<close> compares the age with the TTL as the claims say.\<close>

lemma wrap64_id: "inInt64 x \<Longrightarrow> wrap64 x = x"
  by (simp add: wrap64_def inInt64_def minInt64_def maxInt64_def)

lemma unixNow_sane: "saneClock w \<Longrightarrow> unixNow w = clock w div 1000000000"
proof -
  assume a: "saneClock w"
  have n: "nowSec w = clock w div 1000000000 + unixToInternal"
    using a unfolding nowSec_def
    by (intro wrap64_id) (simp add: saneClock_def inInt64_def unixToInternal_def minInt64_def)
  show ?thesis
    using a unfolding unixNow_def n
    by (simp add: wrap64_id saneClock_def inInt64_def unixToInternal_def maxInt64_def)
qed

text \<open>With a clock and a timestamp that \<open>time.Time\<close> holds without wrapping, the age is
  the difference of the two, kept within a \<open>Duration\<close>.\<close>

lemma timeSince_sane:
  assumes "saneClock w" "inInt64 (ts + unixToInternal)"
  shows "timeSince w ts = satDuration (clock w - ts * 1000000000)"
proof -
  have n: "nowSec w = clock w div 1000000000 + unixToInternal"
    using assms(1) unfolding nowSec_def
    by (intro wrap64_id) (simp add: saneClock_def inInt64_def unixToInternal_def minInt64_def)
  have u: "timeUnix ts = ts + unixToInternal"
    using assms(2) unfolding timeUnix_def by (rule wrap64_id)
  have "clock w div 1000000000 * 1000000000 + clock w mod 1000000000 = clock w"
    by simp
  then have "(clock w div 1000000000 + unixToInternal - (ts + unixToInternal)) * 1000000000
               + clock w mod 1000000000
             = clock w - ts * 1000000000"
    by (simp only: algebra_simps)
  then show ?thesis
    by (simp only: timeSince_def n u)
qed

lemma cacheIsFresh_no_overflow:
  assumes "0 < ttl" "ttl \<le> 9223372036" "saneClock w" "inInt64 (Timestamp c + unixToInternal)"
  shows "cacheIsFresh c ttl w \<longleftrightarrow> clock w - Timestamp c * 1000000000 < ttl * 1000000000"
  using assms(1,2)
  by (auto simp add: cacheIsFresh_def timeSince_sane [OF assms(3,4)] satDuration_def wrap64_def
      minInt64_def maxInt64_def Let_def)

text \<open>So, for those TTLs, an entry stamped in the future is fresh.\<close>

lemma future_timestamp_fresh_no_overflow:
  assumes "0 < ttl" "ttl \<le> 9223372036" "clock w < Timestamp c * 1000000000"
    "saneClock w" "inInt64 (Timestamp c + unixToInternal)"
  shows "cacheIsFresh c ttl w"
proof -
  have "clock w - Timestamp c * 1000000000 < 0"
    using assms(3) by simp
  also have "0 < ttl * 1000000000"
    using assms(1) by simp
  finally show ?thesis
    using assms(1,2,4,5) by (simp add: cacheIsFresh_no_overflow)
qed

text \<open>C4. The claim says \<open>cacheIsFresh\<close> is true exactly when the age is less than the
  TTL, for every TTL greater than 0. With \<open>--cache-ttl 9223372037\<close> the product
  overflows to a negative duration, and an entry half a second old is reported
  stale.\<close>

theorem cacheIsFresh_overflow:
  "(0::int) < 9223372037 \<and> 9223372037 \<le> maxInt64
   \<and> clock world0 - Timestamp \<lparr>Fortune = marker @ ''Good luck.'', Timestamp = 1700000000\<rparr> * 1000000000
       < 9223372037 * 1000000000
   \<and> \<not> cacheIsFresh \<lparr>Fortune = marker @ ''Good luck.'', Timestamp = 1700000000\<rparr> 9223372037 world0"
  by (simp add: cacheIsFresh_def timeSince_def nowSec_def timeUnix_def unixToInternal_def
      satDuration_def wrap64_def world0_def
      minInt64_def maxInt64_def)

subsection \<open>C5: error messages are kept out of the cache and the log\<close>

text \<open>C5. For a string that \<open>isErrorFortune\<close> recognises, \<open>saveCache\<close> and
  \<open>logFortune\<close> return the world unchanged. A cache file whose record holds such a
  string makes \<open>loadCache\<close> return an error, as a missing file, a file that is not
  JSON and a failing read do; \<open>main\<close> (in \<open>serve\<close>) does not look at which error it
  is and goes on to fetch.\<close>

theorem error_tagged_excluded:
  "(isErrorFortune f \<longrightarrow> saveCache f w = w \<and> logFortune f w = w)
   \<and> (cacheFile w = Some (JSON c) \<and> isErrorFortune (Fortune c) \<longrightarrow>
        isl (loadCache w)
        \<and> isl (loadCache (w\<lparr>cacheFile := None\<rparr>))
        \<and> isl (loadCache (w\<lparr>cacheFile := Some (NotJSON m)\<rparr>))
        \<and> isl (loadCache (w\<lparr>faults := insert ReadCache (faults w)\<rparr>))
        \<and> serve fl v p k mo w =
            fetchFresh fl v (cachingOn fl) p k mo
              (if v then println (if cachingOn fl
                                    then ''[fortunebot] No cache found. Fetching fresh fortune...''
                                  else ''[fortunebot] Caching disabled. Fetching fresh fortune...'') w
               else w))"
proof (intro conjI impI)
  assume "isErrorFortune f"
  then show "saveCache f w = w" "logFortune f w = w"
    by (simp_all add: saveCache_def logFortune_def)
next
  assume a: "cacheFile w = Some (JSON c) \<and> isErrorFortune (Fortune c)"
  then show l: "isl (loadCache w)"
    by (simp add: loadCache_def)
  show "isl (loadCache (w\<lparr>cacheFile := None\<rparr>))"
    by (simp add: loadCache_def)
  show "isl (loadCache (w\<lparr>cacheFile := Some (NotJSON m)\<rparr>))"
    by (simp add: loadCache_def)
  show "isl (loadCache (w\<lparr>faults := insert ReadCache (faults w)\<rparr>))"
    by (simp add: loadCache_def)
  show "serve fl v p k mo w =
            fetchFresh fl v (cachingOn fl) p k mo
              (if v then println (if cachingOn fl
                                    then ''[fortunebot] No cache found. Fetching fresh fortune...''
                                  else ''[fortunebot] Caching disabled. Fetching fresh fortune...'') w
               else w)"
    using l by (simp add: serve_miss)
qed

text \<open>An error message offered to both stores, and a cache file that holds one.\<close>

theorem error_tagged_excluded_witness:
  "saveCache taggedText worldDown = worldDown
   \<and> logFortune taggedText worldDown = worldDown
   \<and> isl (loadCache worldTagged)
   \<and> isl (loadCache (worldTagged\<lparr>cacheFile := None\<rparr>))"
proof -
  have h: "cacheFile worldTagged = Some (JSON taggedEntry) \<and> isErrorFortune (Fortune taggedEntry)"
    using tagged by (simp add: worldTagged_def taggedEntry_def)
  note a = error_tagged_excluded [where f = taggedText and w = worldDown,
      THEN conjunct1, rule_format, OF tagged]
  note b = error_tagged_excluded [where w = worldTagged and c = taggedEntry,
      THEN conjunct2, rule_format, OF h]
  show ?thesis
    using a b by blast
qed

subsection \<open>C6: a fetch that fails\<close>

text \<open>C6, amended. Whenever the synchronous fetch of normal mode fails, with any error,
  the run prints the error on standard error and exits with status 1; whenever the
  fetch of the prefetch worker fails, the worker exits with status 1. In both cases
  the log is as it was and no process is started. The worker leaves the cache file as
  it was. The run of normal mode leaves it as it was unless \<open>--clear-cache\<close> is given:
  then the cache file is as \<open>clearCache\<close> left it before the fetch, removed when the
  removal did not fail.\<close>

theorem fetch_failure_exits_1:
  "(normalFlags fl \<and> (cachingOn fl \<longrightarrow> isl (loadCache (preamble fl w)))
      \<and> fst (syncFetch fl w) = Inl e \<longrightarrow>
      main fl w =
        (1, printErr (''[fortunebot] Error: '' @ errorText e @ [nl]) (snd (syncFetch fl w)))
      \<and> stdout (snd (main fl w)) = stdout (beforeFetch fl w)
      \<and> stderr (snd (main fl w)) =
          stderr (beforeFetch fl w) @ ''[fortunebot] Error: '' @ errorText e @ [nl]
      \<and> cacheFile (snd (main fl w)) = cacheFile (if flagClearCache fl then clearCache w else w)
      \<and> (\<not> flagClearCache fl \<longrightarrow> cacheFile (snd (main fl w)) = cacheFile w)
      \<and> (flagClearCache fl \<and> RemoveCache \<notin> faults w \<longrightarrow> cacheFile (snd (main fl w)) = None)
      \<and> logFile (snd (main fl w)) = logFile w
      \<and> spawned (snd (main fl w)) = spawned w)
   \<and> (flagPrefetchWork fl
      \<and> fst (generateFortune (promptOf fl w) (keyOf fl w) (modelOf fl w) w) = Inl e \<longrightarrow>
      main fl w =
        (1, printErr (''[fortunebot] Background prefetch failed: '' @ errorText e @ [nl])
              (snd (generateFortune (promptOf fl w) (keyOf fl w) (modelOf fl w) w)))
      \<and> stderr (snd (main fl w)) =
          stderr w @ ''[fortunebot] Background prefetch failed: '' @ errorText e @ [nl]
      \<and> cacheFile (snd (main fl w)) = cacheFile w
      \<and> logFile (snd (main fl w)) = logFile w
      \<and> spawned (snd (main fl w)) = spawned w)"
proof (intro conjI impI)
  assume a: "normalFlags fl \<and> (cachingOn fl \<longrightarrow> isl (loadCache (preamble fl w)))
      \<and> fst (syncFetch fl w) = Inl e"
  then have m: "main fl w =
        (1, printErr (''[fortunebot] Error: '' @ errorText e @ [nl]) (snd (syncFetch fl w)))"
    by (simp add: main_fetch_fail)
  show "main fl w =
        (1, printErr (''[fortunebot] Error: '' @ errorText e @ [nl]) (snd (syncFetch fl w)))"
    by (rule m)
  show "stdout (snd (main fl w)) = stdout (beforeFetch fl w)"
    by (simp add: m)
  show "stderr (snd (main fl w)) =
          stderr (beforeFetch fl w) @ ''[fortunebot] Error: '' @ errorText e @ [nl]"
    by (simp add: m)
  show c: "cacheFile (snd (main fl w)) = cacheFile (if flagClearCache fl then clearCache w else w)"
    by (simp add: m)
  show "logFile (snd (main fl w)) = logFile w"
    by (simp add: m)
  show "spawned (snd (main fl w)) = spawned w"
    by (simp add: m)
  show "cacheFile (snd (main fl w)) = cacheFile w" if "\<not> flagClearCache fl"
    using that by (simp add: c)
  show "cacheFile (snd (main fl w)) = None" if "flagClearCache fl \<and> RemoveCache \<notin> faults w"
    using that by (simp add: c clearCache_def)
next
  let ?g = "generateFortune (promptOf fl w) (keyOf fl w) (modelOf fl w) w"
  assume a: "flagPrefetchWork fl \<and> fst ?g = Inl e"
  then have m: "main fl w =
        (1, printErr (''[fortunebot] Background prefetch failed: '' @ errorText e @ [nl]) (snd ?g))"
    by (cases ?g)
       (simp add: main_def runPrefetchWorker_def Let_def promptOf_def keyOf_def modelOf_def)
  show "main fl w =
        (1, printErr (''[fortunebot] Background prefetch failed: '' @ errorText e @ [nl]) (snd ?g))"
    by (rule m)
  show "stderr (snd (main fl w)) =
          stderr w @ ''[fortunebot] Background prefetch failed: '' @ errorText e @ [nl]"
    by (simp add: m)
  show "cacheFile (snd (main fl w)) = cacheFile w"
    by (simp add: m)
  show "logFile (snd (main fl w)) = logFile w"
    by (simp add: m)
  show "spawned (snd (main fl w)) = spawned w"
    by (simp add: m)
qed

text \<open>The network is down; an earlier run left a cache entry and a log line.\<close>

theorem fetch_failure_exits_1_witness:
  "fst (main flagsNoCache worldDown) = 1
   \<and> stdout (snd (main flagsNoCache worldDown)) = ''''
   \<and> stderr (snd (main flagsNoCache worldDown)) =
       ''[fortunebot] Error: connection refused'' @ [nl]
   \<and> cacheFile (snd (main flagsNoCache worldDown)) = Some (JSON staleEntry)
   \<and> logFile (snd (main flagsNoCache worldDown)) = Some oldLog
   \<and> fst (main flagsWorker worldDown) = 1
   \<and> stderr (snd (main flagsWorker worldDown)) =
       ''[fortunebot] Background prefetch failed: connection refused'' @ [nl]
   \<and> cacheFile (snd (main flagsWorker worldDown)) = Some (JSON staleEntry)
   \<and> logFile (snd (main flagsWorker worldDown)) = Some oldLog"
proof -
  have h1: "normalFlags flagsNoCache
      \<and> (cachingOn flagsNoCache \<longrightarrow> isl (loadCache (preamble flagsNoCache worldDown)))
      \<and> fst (syncFetch flagsNoCache worldDown) = Inl (Transport ''connection refused'')"
    by (simp add: syncFetch_worldDown)
  have h2: "flagPrefetchWork flagsWorker
      \<and> fst (generateFortune (promptOf flagsWorker worldDown) (keyOf flagsWorker worldDown)
          (modelOf flagsWorker worldDown) worldDown) = Inl (Transport ''connection refused'')"
    using worker_worldDown by simp
  note fg = fetch_failure_exits_1 [of flagsNoCache worldDown "Transport ''connection refused''",
      THEN conjunct1, rule_format, OF h1]
  note bg = fetch_failure_exits_1 [of flagsWorker worldDown "Transport ''connection refused''",
      THEN conjunct2, rule_format, OF h2]
  have 1: "fst (main flagsNoCache worldDown) = 1"
    using fg [THEN conjunct1] by simp
  have 2: "stdout (snd (main flagsNoCache worldDown)) = ''''"
    using fg [THEN conjunct2, THEN conjunct1] by simp
  have 3: "stderr (snd (main flagsNoCache worldDown)) =
       ''[fortunebot] Error: connection refused'' @ [nl]"
    using fg [THEN conjunct2, THEN conjunct2, THEN conjunct1] by (simp add: errorText_def)
  have 4: "cacheFile (snd (main flagsNoCache worldDown)) = Some (JSON staleEntry)"
    using fg [THEN conjunct2, THEN conjunct2, THEN conjunct2, THEN conjunct1] by simp
  have 5: "logFile (snd (main flagsNoCache worldDown)) = Some oldLog"
    using fg [THEN conjunct2, THEN conjunct2, THEN conjunct2, THEN conjunct2, THEN conjunct2,
        THEN conjunct2, THEN conjunct1]
    by simp
  have 6: "fst (main flagsWorker worldDown) = 1"
    using bg [THEN conjunct1] by simp
  have 7: "stderr (snd (main flagsWorker worldDown)) =
       ''[fortunebot] Background prefetch failed: connection refused'' @ [nl]"
    using bg [THEN conjunct2, THEN conjunct1] by (simp add: errorText_def)
  have 8: "cacheFile (snd (main flagsWorker worldDown)) = Some (JSON staleEntry)"
    using bg [THEN conjunct2, THEN conjunct2, THEN conjunct1] by simp
  have 9: "logFile (snd (main flagsWorker worldDown)) = Some oldLog"
    using bg [THEN conjunct2, THEN conjunct2, THEN conjunct2, THEN conjunct1] by simp
  show ?thesis
    using 1 2 3 4 5 6 7 8 9 by blast
qed

text \<open>The claim as the specification states it fails: it says that the cache file is
  left untouched by every run whose fetch fails. With \<open>--clear-cache\<close>, a cache entry
  on disk and the network down, the run exits with status 1 and the entry is gone.\<close>

theorem clear_cache_then_failed_fetch_removes_cache:
  "normalFlags flagsClear \<and> flagClearCache flagsClear
   \<and> cacheFile worldDown = Some (JSON staleEntry)
   \<and> fst (syncFetch flagsClear worldDown) = Inl (Transport ''connection refused'')
   \<and> fst (main flagsClear worldDown) = 1
   \<and> cacheFile (snd (main flagsClear worldDown)) = None
   \<and> logFile (snd (main flagsClear worldDown)) = Some oldLog"
proof -
  have l: "cachingOn flagsClear \<longrightarrow> isl (loadCache (preamble flagsClear worldDown))"
    by (simp add: preamble_flagsClear loadCache_def)
  have m: "main flagsClear worldDown =
             (1, printErr (''[fortunebot] Error: '' @ errorText (Transport ''connection refused'') @ [nl])
                   (snd (syncFetch flagsClear worldDown)))"
    using l by (simp add: main_fetch_fail syncFetch_flagsClear)
  show ?thesis
    by (simp add: m syncFetch_flagsClear preamble_flagsClear)
qed

subsection \<open>C7: no key, no request\<close>




subsection \<open>C8: a random fortune from the log\<close>

text \<open>C8. \<open>randomFortuneFromLog\<close> takes from every line of the log that has a tab the
  trimmed text after the first tab, and skips the other lines. It fails when the log
  cannot be read or no line gives an entry, and log-random mode then exits with
  status 1 and prints nothing on standard output. Otherwise it returns the entry whose
  index \<open>rand.Intn\<close> draws: one of the entries, and each entry for some draw; log-random
  mode prints it and exits with status 0. For the log \<open>1000<tab>Hello\<close> the run prints
  \<open>Hello\<close> and exits with status 0. (That the draw is uniform is a property of
  \<open>math/rand\<close>, which the embedding takes as an input.)\<close>

theorem random_fortune_from_log:
  "collectFortunes ls =
     map (\<lambda>l. TrimSpace (tl (dropWhile (\<lambda>c. c \<noteq> tab) l))) (filter (\<lambda>l. tab \<in> set l) ls)
   \<and> (logFile w = None \<or> ReadLog \<in> faults w \<longrightarrow> isl (randomFortuneFromLog w))
   \<and> (logFile w = Some b \<and> ReadLog \<notin> faults w \<and> collectFortunes (Split b nl) = [] \<longrightarrow>
        randomFortuneFromLog w = Inl ''no fortunes found in log'')
   \<and> (logFile w = Some b \<and> ReadLog \<notin> faults w \<and> collectFortunes (Split b nl) \<noteq> [] \<longrightarrow>
        randomFortuneFromLog w =
          Inr (collectFortunes (Split b nl) ! (randSource w mod length (collectFortunes (Split b nl))))
        \<and> (\<exists>e \<in> set (collectFortunes (Split b nl)). randomFortuneFromLog w = Inr e)
        \<and> (\<forall>i < length (collectFortunes (Split b nl)).
              randomFortuneFromLog (w\<lparr>randSource := i\<rparr>) = Inr (collectFortunes (Split b nl) ! i)))
   \<and> (flagLogRandom fl \<and> \<not> flagPrefetchWork fl \<and> \<not> flagShowLog fl
        \<and> isl (randomFortuneFromLog w) \<longrightarrow>
        fst (main fl w) = 1 \<and> stdout (snd (main fl w)) = stdout w)
   \<and> (flagLogRandom fl \<and> \<not> flagPrefetchWork fl \<and> \<not> flagShowLog fl
        \<and> randomFortuneFromLog w = Inr f \<longrightarrow>
        fst (main fl w) = 0
        \<and> (\<exists>pre. stdout (snd (main fl w)) = stdout w @ pre @ f @ [nl]
                  \<and> (\<not> verboseOf fl \<longrightarrow> pre = '''')))
   \<and> main flagsRandom worldHello = (0, println ''Hello'' worldHello)"
proof (intro conjI impI)
  show "collectFortunes ls =
     map (\<lambda>l. TrimSpace (tl (dropWhile (\<lambda>c. c \<noteq> tab) l))) (filter (\<lambda>l. tab \<in> set l) ls)"
    by (rule collectFortunes_eq)
next
  assume "logFile w = None \<or> ReadLog \<in> faults w"
  then show "isl (randomFortuneFromLog w)"
    by (auto simp: randomFortuneFromLog_def readLog_def)
next
  assume "logFile w = Some b \<and> ReadLog \<notin> faults w \<and> collectFortunes (Split b nl) = []"
  then show "randomFortuneFromLog w = Inl ''no fortunes found in log''"
    by (simp add: randomFortuneFromLog_def readLog_def)
next
  let ?fs = "collectFortunes (Split b nl)"
  assume a: "logFile w = Some b \<and> ReadLog \<notin> faults w \<and> ?fs \<noteq> []"
  then show r: "randomFortuneFromLog w = Inr (?fs ! (randSource w mod length ?fs))"
    by (simp add: randomFortuneFromLog_def readLog_def randIntn_def Let_def)
  have "randSource w mod length ?fs < length ?fs"
    using a by simp
  then have "?fs ! (randSource w mod length ?fs) \<in> set ?fs"
    by (rule nth_mem)
  then show "\<exists>e \<in> set ?fs. randomFortuneFromLog w = Inr e"
    using r by blast
  show "\<forall>i < length ?fs. randomFortuneFromLog (w\<lparr>randSource := i\<rparr>) = Inr (?fs ! i)"
    using a by (simp add: randomFortuneFromLog_randSource)
next
  assume a: "flagLogRandom fl \<and> \<not> flagPrefetchWork fl \<and> \<not> flagShowLog fl
        \<and> isl (randomFortuneFromLog w)"
  then obtain e where "randomFortuneFromLog w = Inl e"
    by (cases "randomFortuneFromLog w") auto
  then have "main fl w = (1, printErr (''[fortunebot] '' @ e @ [nl]) w)"
    using a by (simp add: main_logRandom)
  then show "fst (main fl w) = 1" "stdout (snd (main fl w)) = stdout w"
    by simp_all
next
  assume a: "flagLogRandom fl \<and> \<not> flagPrefetchWork fl \<and> \<not> flagShowLog fl
        \<and> randomFortuneFromLog w = Inr f"
  then have m: "main fl w =
     (0, println f (if verboseOf fl
                    then println ''[fortunebot] Showing random fortune from log (no API call).'' w
                    else w))"
    by (simp add: main_logRandom)
  show "fst (main fl w) = 0"
    by (simp add: m)
  show "\<exists>pre. stdout (snd (main fl w)) = stdout w @ pre @ f @ [nl]
                  \<and> (\<not> verboseOf fl \<longrightarrow> pre = '''')"
  proof (cases "verboseOf fl")
    case True
    then show ?thesis
      by (intro exI [of _ "''[fortunebot] Showing random fortune from log (no API call).'' @ [nl]"])
         (simp add: m)
  next
    case False
    then show ?thesis
      by (intro exI [of _ "''''"]) (simp add: m)
  qed
next
  have "collectFortunes (Split (''1000'' @ [tab] @ ''Hello'') nl) = [''Hello'']"
    by (simp add: collectFortunes_eq nl_def tab_def TrimSpace_def asciiSpace_def space2_def
        space3_def del: collectFortunes.simps)
  then have "randomFortuneFromLog worldHello = Inr ''Hello''"
    by (simp add: randomFortuneFromLog_def readLog_def randIntn_def worldHello_def world0_def)
  then show "main flagsRandom worldHello = (0, println ''Hello'' worldHello)"
    by (simp add: main_logRandom flagsRandom_def flags0_def verboseOf_def)
qed

text \<open>A log of two entries among four lines, a log with no entry, and no log.\<close>

theorem random_fortune_from_log_witness:
  "collectFortunes (Split logText nl) = [''Hello'', ''World'']
   \<and> randomFortuneFromLog worldLog = Inr ''World''
   \<and> randomFortuneFromLog (worldLog\<lparr>randSource := 0\<rparr>) = Inr ''Hello''
   \<and> fst (main flagsRandom worldLog) = 0
   \<and> stdout (snd (main flagsRandom worldLog)) = ''World'' @ [nl]
   \<and> randomFortuneFromLog worldJunk = Inl ''no fortunes found in log''
   \<and> isl (randomFortuneFromLog world0)
   \<and> fst (main flagsRandom world0) = 1
   \<and> stdout (snd (main flagsRandom world0)) = ''''"
proof -
  have l: "logFile worldLog = Some logText \<and> ReadLog \<notin> faults worldLog
             \<and> collectFortunes (Split logText nl) \<noteq> []"
    by (simp add: worldLog_def world0_def logText_entries)
  have j: "logFile worldJunk = Some ''bad line'' \<and> ReadLog \<notin> faults worldJunk
             \<and> collectFortunes (Split ''bad line'' nl) = []"
    using junk_entries by (simp add: worldJunk_def world0_def del: collectFortunes.simps Split.simps)
  have n: "logFile world0 = None \<or> ReadLog \<in> faults world0"
    by simp
  note t = random_fortune_from_log [where w = worldLog and b = logText]
  note drawn = t [THEN conjunct2, THEN conjunct2, THEN conjunct2, THEN conjunct1, rule_format, OF l]
  have 1: "randomFortuneFromLog worldLog = Inr ''World''"
    using drawn [THEN conjunct1]
    by (simp add: logText_entries worldLog_def world0_def numeral_2_eq_2 [symmetric])
  have 2: "randomFortuneFromLog (worldLog\<lparr>randSource := 0\<rparr>) = Inr ''Hello''"
    using drawn [THEN conjunct2, THEN conjunct2, rule_format, of 0] by (simp add: logText_entries)
  have r: "flagLogRandom flagsRandom \<and> \<not> flagPrefetchWork flagsRandom \<and> \<not> flagShowLog flagsRandom
             \<and> randomFortuneFromLog worldLog = Inr ''World''"
    using 1 by simp
  note ok = random_fortune_from_log [where w = worldLog and fl = flagsRandom and f = "''World''",
      THEN conjunct2, THEN conjunct2, THEN conjunct2, THEN conjunct2, THEN conjunct2,
      THEN conjunct1, rule_format, OF r]
  have 3: "fst (main flagsRandom worldLog) = 0"
    using ok by simp
  have 4: "stdout (snd (main flagsRandom worldLog)) = ''World'' @ [nl]"
    using ok [THEN conjunct2] by (auto simp: worldLog_def world0_def)
  have 5: "randomFortuneFromLog worldJunk = Inl ''no fortunes found in log''"
    using random_fortune_from_log [where w = worldJunk and b = "''bad line''",
        THEN conjunct2, THEN conjunct2, THEN conjunct1, rule_format, OF j] .
  have 6: "isl (randomFortuneFromLog world0)"
    using random_fortune_from_log [where w = world0,
        THEN conjunct2, THEN conjunct1, rule_format, OF n] .
  have f: "flagLogRandom flagsRandom \<and> \<not> flagPrefetchWork flagsRandom \<and> \<not> flagShowLog flagsRandom
             \<and> isl (randomFortuneFromLog world0)"
    using 6 by simp
  note bad = random_fortune_from_log [where w = world0 and fl = flagsRandom,
      THEN conjunct2, THEN conjunct2, THEN conjunct2, THEN conjunct2, THEN conjunct1,
      rule_format, OF f]
  have 7: "fst (main flagsRandom world0) = 1" "stdout (snd (main flagsRandom world0)) = ''''"
    using bad by simp_all
  show ?thesis
    using logText_entries 1 2 3 4 5 6 7 by blast
qed

subsection \<open>C9: save, then load\<close>

text \<open>C9. After \<open>saveCache f\<close> for a fortune \<open>f\<close> that is not an error message, where
  the directory could be made and the file written, \<open>loadCache\<close> in any later world
  that still has that cache file and can read it returns an entry whose text is \<open>f\<close>,
  byte for byte, stamped with the second of the save; within the TTL window the
  entry is fresh, for clocks that \<open>time.Now()\<close> holds without wrapping. A fortune is text: well-formed UTF-8, which \<open>encoding/json\<close> stores
  as it is (\<open>jsonString f = f\<close>), and which every string is that \<open>generateFortune\<close>
  makes from a decoded reply.\<close>

theorem save_load_roundtrip:
  assumes "\<not> isErrorFortune f" and "jsonString f = f"
    and "MkdirData \<notin> faults w" and "WriteCache \<notin> faults w"
    and "cacheFile w' = cacheFile (saveCache f w)" and "ReadCache \<notin> faults w'"
  shows "\<exists>c. loadCache w' = Inr c \<and> Fortune c = f \<and> Timestamp c = unixNow w
           \<and> (\<forall>ttl. 0 < ttl \<and> ttl \<le> 9223372036 \<and> saneClock w \<and> saneClock w'
                      \<and> clock w' - unixNow w * 1000000000 < ttl * 1000000000
                    \<longrightarrow> cacheIsFresh c ttl w')"
proof -
  have l: "loadCache w' = Inr \<lparr>Fortune = f, Timestamp = unixNow w\<rparr>"
    using assms by (simp add: saveCache_def loadCache_def)
  have i: "saneClock w \<Longrightarrow> inInt64 (unixNow w + unixToInternal)"
    by (simp add: unixNow_sane)
      (simp add: saneClock_def inInt64_def unixToInternal_def minInt64_def)
  have "\<forall>ttl. 0 < ttl \<and> ttl \<le> 9223372036 \<and> saneClock w \<and> saneClock w'
                \<and> clock w' - unixNow w * 1000000000 < ttl * 1000000000
              \<longrightarrow> cacheIsFresh \<lparr>Fortune = f, Timestamp = unixNow w\<rparr> ttl w'"
    using i by (simp add: cacheIsFresh_no_overflow)
  then show ?thesis
    using l by simp
qed

text \<open>A fortune saved, and loaded 30 seconds later with a TTL of 60 seconds.\<close>

theorem save_load_roundtrip_witness:
  "loadCache (laterWorld (saveCache (marker @ ''Good luck.'') world0))
     = Inr \<lparr>Fortune = marker @ ''Good luck.'', Timestamp = 1700000000\<rparr>
   \<and> cacheIsFresh \<lparr>Fortune = marker @ ''Good luck.'', Timestamp = 1700000000\<rparr> 60
         (laterWorld (saveCache (marker @ ''Good luck.'') world0))"
proof -
  let ?w' = "laterWorld (saveCache (marker @ ''Good luck.'') world0)"
  have h1: "\<not> isErrorFortune (marker @ ''Good luck.'')"
    by (rule marker_not_error)
  have h2: "MkdirData \<notin> faults world0" "WriteCache \<notin> faults world0"
    by simp_all
  have h3: "cacheFile ?w' = cacheFile (saveCache (marker @ ''Good luck.'') world0)"
    by (simp add: laterWorld_def)
  have h4: "ReadCache \<notin> faults ?w'"
    by (simp add: laterWorld_def)
  from save_load_roundtrip [OF h1 jsonString_good h2 h3 h4]
  obtain c where c: "loadCache ?w' = Inr c" "Fortune c = marker @ ''Good luck.''"
    "Timestamp c = unixNow world0"
    and fresh: "\<forall>ttl. 0 < ttl \<and> ttl \<le> 9223372036 \<and> saneClock world0 \<and> saneClock ?w'
                  \<and> clock ?w' - unixNow world0 * 1000000000 < ttl * 1000000000
                \<longrightarrow> cacheIsFresh c ttl ?w'"
    by blast
  have s: "saneClock world0" "saneClock ?w'"
    by (simp_all add: saneClock_def laterWorld_def minInt64_def maxInt64_def unixToInternal_def)
      (simp_all add: world0_def)
  have e: "c = \<lparr>Fortune = marker @ ''Good luck.'', Timestamp = 1700000000\<rparr>"
    using c by (cases c) simp
  have "clock ?w' - unixNow world0 * 1000000000 < 60 * 1000000000"
    by (simp add: laterWorld_def) (simp add: world0_def)
  then have "cacheIsFresh c 60 ?w'"
    using fresh s by simp
  then show ?thesis
    using c(1) e by simp
qed

subsection \<open>C10: a timestamp in the future\<close>

text \<open>C10. The claim says an entry whose timestamp lies in the future is fresh for every
  TTL greater than 0. With the same TTL of 9223372037 seconds an entry stamped 60
  seconds ahead of the clock is reported stale.\<close>

theorem future_timestamp_overflow:
  "clock world0 < Timestamp \<lparr>Fortune = marker @ ''Good luck.'', Timestamp = 1700000060\<rparr> * 1000000000
   \<and> (0::int) < 9223372037 \<and> 9223372037 \<le> maxInt64
   \<and> \<not> cacheIsFresh \<lparr>Fortune = marker @ ''Good luck.'', Timestamp = 1700000060\<rparr> 9223372037 world0"
  by (simp add: cacheIsFresh_def timeSince_def nowSec_def timeUnix_def unixToInternal_def
      satDuration_def wrap64_def world0_def
      minInt64_def maxInt64_def)

end
